theory Spec2Isabelle
  imports Main "HOL-Library.Word"
begin

section \<open>Strings\<close>

text \<open>
  The strings of the step definitions are sequences of UTF-16 code units. Every unit the
  handlers write themselves lies below 256 (ASCII and the accented letters of the Spanish
  messages), so a string is modelled as a \<^typ>\<open>string\<close> whose characters are those units;
  the accented letters are written by their code. The WebDriver control codes of the key
  table lie above 255 and are kept as 16-bit words.
\<close>

definition a_acute :: char where "a_acute = CHR 0xE1"
definition e_acute :: char where "e_acute = CHR 0xE9"
definition o_acute :: char where "o_acute = CHR 0xF3"

definition quoted :: "string \<Rightarrow> string" where
  \<comment> \<open>the template fragment \<^verbatim>\<open>"${s}"\<close>\<close>
  "quoted s = CHR 0x22 # s @ [CHR 0x22]"

fun split_on :: "'a \<Rightarrow> 'a list \<Rightarrow> 'a list list" where
  \<comment> \<open>\<^verbatim>\<open>s.split(sep)\<close> for a separator of one unit: the empty string gives one empty piece\<close>
  "split_on sep [] = [[]]"
| "split_on sep (c # cs) =
     (if c = sep then [] # split_on sep cs
      else (case split_on sep cs of
              [] \<Rightarrow> [[c]]
            | t # ts \<Rightarrow> (c # t) # ts))"

fun replace_first :: "'a \<Rightarrow> 'a list \<Rightarrow> 'a list" where
  \<comment> \<open>\<^verbatim>\<open>s.replace(c, '')\<close> with a string pattern: only the first occurrence goes\<close>
  "replace_first c [] = []"
| "replace_first c (x # xs) = (if x = c then xs else x # replace_first c xs)"

fun includes_str :: "'a list \<Rightarrow> 'a list \<Rightarrow> bool" where
  \<comment> \<open>\<^verbatim>\<open>s.includes(e)\<close> on strings: \<open>e\<close> occurs in \<open>s\<close> as a contiguous piece\<close>
  "includes_str [] e = (e = [])"
| "includes_str (c # cs) e = (take (length e) (c # cs) = e \<or> includes_str cs e)"

section \<open>The page as the driver shows it\<close>

type_synonym node = nat
type_synonym selector = string

text \<open>
  One snapshot of the page under test, through the driver calls the handlers use. An
  element handle is a \<^typ>\<open>node\<close>. \<open>parent\<close> is \<^verbatim>\<open>element.$('..')\<close>, whose result the
  source tests for truthiness; \<open>query\<close>, \<open>query_in\<close> and \<open>query_all\<close> are \<^verbatim>\<open>driver.$(s)\<close>,
  \<^verbatim>\<open>element.$(s)\<close> and \<^verbatim>\<open>element.$$(s)\<close>, whose handles the source uses unchecked.
\<close>

record page =
  getUrl :: string
  parent :: "node \<Rightarrow> node option"
  getTagName :: "node \<Rightarrow> string"
  getAttribute :: "node \<Rightarrow> string \<Rightarrow> string option"
  getText :: "node \<Rightarrow> string"
  isDisplayed :: "node \<Rightarrow> bool"
  isClickable :: "node \<Rightarrow> bool"
  query :: "selector \<Rightarrow> node"
  query_in :: "node \<Rightarrow> selector \<Rightarrow> node"
  query_all :: "node \<Rightarrow> selector \<Rightarrow> node list"

section \<open>closest\<close>

definition class_name :: "selector \<Rightarrow> string" where
  \<comment> \<open>\<^verbatim>\<open>selector.replace('.', '')\<close>\<close>
  "class_name selector = replace_first (CHR ''.'') selector"

definition class_matches :: "string option \<Rightarrow> selector \<Rightarrow> bool" where
  \<comment> \<open>\<^verbatim>\<open>classAttr && classAttr.split(' ').includes(selector.replace('.', ''))\<close>:
      a null and an empty attribute are falsy\<close>
  "class_matches classAttr selector =
     (case classAttr of
        None \<Rightarrow> False
      | Some a \<Rightarrow> a \<noteq> [] \<and> class_name selector \<in> set (split_on (CHR '' '') a))"

definition has_class :: "page \<Rightarrow> selector \<Rightarrow> node \<Rightarrow> bool" where
  \<comment> \<open>the test of one ancestor: its \<open>class\<close> attribute is read and matched\<close>
  "has_class p selector n = class_matches (getAttribute p n ''class'') selector"

text \<open>
  The loop of \<^verbatim>\<open>closest\<close>, from the current value of \<^verbatim>\<open>parent\<close>. Nothing in the source
  bounds the walk, so the loop is a partial function: \<open>None\<close> is a walk that never
  returns, \<open>Some None\<close> is the result \<^verbatim>\<open>null\<close>.
\<close>

partial_function (option) closest_loop ::
  "page \<Rightarrow> selector \<Rightarrow> node option \<Rightarrow> node option option" where
  "closest_loop p selector par =
     (case par of
        None \<Rightarrow> Some None
      | Some n \<Rightarrow>
          if getTagName p n = ''html'' then Some None
          else if has_class p selector n then Some (Some n)
          else closest_loop p selector (parent p n))"

definition closest :: "page \<Rightarrow> node \<Rightarrow> selector \<Rightarrow> node option option" where
  "closest p element selector = closest_loop p selector (parent p element)"

text \<open>The ancestors of an element, nearest first, when repeated parent lookup ends.\<close>

inductive chain_of :: "page \<Rightarrow> node option \<Rightarrow> node list \<Rightarrow> bool" for p :: page where
  chain_end: "chain_of p None []"
| chain_step: "chain_of p (parent p n) ns \<Longrightarrow> chain_of p (Some n) (n # ns)"

definition not_root :: "page \<Rightarrow> node \<Rightarrow> bool" where
  "not_root p n = (getTagName p n \<noteq> ''html'')"

definition below_root :: "page \<Rightarrow> node list \<Rightarrow> node list" where
  \<comment> \<open>the ancestors strictly below the first node whose tag is \<open>html\<close>\<close>
  "below_root p ns = takeWhile (not_root p) ns"

definition upto_root :: "page \<Rightarrow> node list \<Rightarrow> node list" where
  \<comment> \<open>the same ancestors, and that \<open>html\<close> node at their end\<close>
  "upto_root p ns = below_root p ns @ take 1 (dropWhile (not_root p) ns)"

definition matching :: "page \<Rightarrow> selector \<Rightarrow> node list \<Rightarrow> node list" where
  "matching p selector ns = filter (has_class p selector) ns"

section \<open>The session: driver, clock and trace\<close>

text \<open>
  The driver is an outside collaborator. A session fixes what it will show: \<open>world t\<close> is
  the page at instant \<open>t\<close>, and \<open>ticks ms\<close> is the number of times a wait of \<open>ms\<close>
  milliseconds looks at the page before it gives up. Every command of a handler takes one
  instant; a wait takes one instant for each look. The commands that act on the page
  (a click, keys that are strings, setting a value, saving a screenshot) are taken to
  succeed. The theorems hold for every session, so for every way the page can change
  while a step runs.
\<close>

record session =
  world :: "nat \<Rightarrow> page"
  ticks :: "nat \<Rightarrow> nat"

text \<open>
  The argument of \<^verbatim>\<open>driver.keys\<close>: a string, an array of strings, the one-unit string of
  a control code, or a value that is not a string (named by the property it came from).
\<close>

datatype keys_arg =
    KeyText string
  | KeyChord "string list"
  | KeyCode "16 word"
  | NotAString string

datatype event =
    Find selector
  | FindIn node selector
  | FindAllIn node selector
  | WaitForDisplayed node nat
  | WaitForClickable node nat
  | WaitUntil nat
  | Click node
  | Keys keys_arg
  | SetValue node string
  | ReadUrl
  | ReadText node
  | ReadAttribute node string
  | SaveScreenshot string
  | MkdirSync string
  | ConsoleLog string

text \<open>
  What a handler can throw: the \<^verbatim>\<open>Error\<close> of the key step; the assertion error of
  \<^verbatim>\<open>assert.ok\<close> with its message; the assertion error of \<^verbatim>\<open>assert.strictEqual\<close>, which
  has no message of the handler's and is kept by its two values; the error of
  \<^verbatim>\<open>waitUntil\<close> with its \<^verbatim>\<open>timeoutMsg\<close>; the driver's own errors of its two waits and of
  \<^verbatim>\<open>keys\<close>; and the type error of a method call on \<^verbatim>\<open>null\<close>.
\<close>

datatype error =
    Error string
  | AssertionError string
  | NotStrictEqual string string
  | TimeoutError string
  | DisplayTimeout node nat
  | ClickableTimeout node nat
  | TypeError string
  | KeysArgumentError

text \<open>
  \<open>clock\<close> is the current instant, \<open>trace\<close> the commands the handler has issued, oldest
  first, and \<open>paths\<close> the files and directories that exist. The trace holds the commands
  a handler issues itself; the reads inside a wait's predicate and inside the walk of
  \<^verbatim>\<open>closest\<close> are not listed one by one.
\<close>

record state =
  clock :: nat
  trace :: "event list"
  paths :: "string set"

text \<open>
  An action runs from a state. \<open>None\<close>: it never returns (only the walk of
  \<^verbatim>\<open>closest\<close> can do that). \<open>Some (Inl e, s)\<close>: it threw \<open>e\<close> in state \<open>s\<close>.
\<close>

type_synonym 'a action = "state \<Rightarrow> ((error + 'a) \<times> state) option"

definition ret :: "'a \<Rightarrow> 'a action" where
  "ret x s = Some (Inr x, s)"

definition throw :: "error \<Rightarrow> 'a action" where
  "throw e s = Some (Inl e, s)"

definition bind :: "'a action \<Rightarrow> ('a \<Rightarrow> 'b action) \<Rightarrow> 'b action" where
  "bind m f s =
     (case m s of
        None \<Rightarrow> None
      | Some (Inl e, s') \<Rightarrow> Some (Inl e, s')
      | Some (Inr x, s') \<Rightarrow> f x s')"

definition issue :: "event \<Rightarrow> state \<Rightarrow> state" where
  "issue e s = s\<lparr>clock := Suc (clock s), trace := trace s @ [e]\<rparr>"

definition command :: "event \<Rightarrow> unit action" where
  \<comment> \<open>a command that acts on the page and returns nothing\<close>
  "command e s = Some (Inr (), issue e s)"

definition observe :: "session \<Rightarrow> event \<Rightarrow> (page \<Rightarrow> 'a) \<Rightarrow> 'a action" where
  \<comment> \<open>a command that reads the page of the current instant\<close>
  "observe d e f s = Some (Inr (f (world d (clock s))), issue e s)"

fun first_true :: "(nat \<Rightarrow> bool) \<Rightarrow> nat \<Rightarrow> nat \<Rightarrow> nat option" where
  \<comment> \<open>the first of \<open>n\<close> instants from \<open>t\<close> on at which the condition holds\<close>
  "first_true c t 0 = None"
| "first_true c t (Suc n) = (if c t then Some t else first_true c (Suc t) n)"

definition waiting :: "session \<Rightarrow> event \<Rightarrow> (page \<Rightarrow> bool) \<Rightarrow> nat \<Rightarrow> error \<Rightarrow> unit action" where
  \<comment> \<open>a bounded wait: it returns at the first look that finds the condition, and throws
      when none of the looks of its budget does\<close>
  "waiting d e c ms err s =
     (case first_true (\<lambda>t. c (world d t)) (clock s) (ticks d ms) of
        Some t \<Rightarrow> Some (Inr (), s\<lparr>clock := Suc t, trace := trace s @ [e]\<rparr>)
      | None \<Rightarrow> Some (Inl err, s\<lparr>clock := clock s + ticks d ms, trace := trace s @ [e]\<rparr>))"

definition find_element :: "session \<Rightarrow> selector \<Rightarrow> node action" where
  "find_element d selector = observe d (Find selector) (\<lambda>p. query p selector)"

definition find_in :: "session \<Rightarrow> node \<Rightarrow> selector \<Rightarrow> node action" where
  "find_in d element selector = observe d (FindIn element selector) (\<lambda>p. query_in p element selector)"

definition find_all_in :: "session \<Rightarrow> node \<Rightarrow> selector \<Rightarrow> node list action" where
  "find_all_in d element selector =
     observe d (FindAllIn element selector) (\<lambda>p. query_all p element selector)"

definition waitForDisplayed :: "session \<Rightarrow> node \<Rightarrow> nat \<Rightarrow> unit action" where
  "waitForDisplayed d element ms =
     waiting d (WaitForDisplayed element ms) (\<lambda>p. isDisplayed p element) ms (DisplayTimeout element ms)"

definition waitForClickable :: "session \<Rightarrow> node \<Rightarrow> nat \<Rightarrow> unit action" where
  "waitForClickable d element ms =
     waiting d (WaitForClickable element ms) (\<lambda>p. isClickable p element) ms (ClickableTimeout element ms)"

definition waitUntil :: "session \<Rightarrow> (page \<Rightarrow> bool) \<Rightarrow> nat \<Rightarrow> string \<Rightarrow> unit action" where
  "waitUntil d c ms timeoutMsg = waiting d (WaitUntil ms) c ms (TimeoutError timeoutMsg)"

definition click :: "node \<Rightarrow> unit action" where
  "click element = command (Click element)"

definition keys :: "keys_arg \<Rightarrow> unit action" where
  \<comment> \<open>the driver takes a string or an array of strings and rejects any other value\<close>
  "keys a =
     (case a of
        NotAString v \<Rightarrow> bind (command (Keys a)) (\<lambda>_. throw KeysArgumentError)
      | _ \<Rightarrow> command (Keys a))"

definition setValue :: "node \<Rightarrow> string \<Rightarrow> unit action" where
  "setValue element v = command (SetValue element v)"

definition read_url :: "session \<Rightarrow> string action" where
  "read_url d = observe d ReadUrl getUrl"

definition read_text :: "session \<Rightarrow> node \<Rightarrow> string action" where
  "read_text d element = observe d (ReadText element) (\<lambda>p. getText p element)"

definition read_attribute :: "session \<Rightarrow> node \<Rightarrow> string \<Rightarrow> string option action" where
  "read_attribute d element name =
     observe d (ReadAttribute element name) (\<lambda>p. getAttribute p element name)"

definition console_log :: "string \<Rightarrow> unit action" where
  "console_log msg s = Some (Inr (), s\<lparr>trace := trace s @ [ConsoleLog msg]\<rparr>)"

definition assert_ok :: "bool \<Rightarrow> string \<Rightarrow> unit action" where
  "assert_ok b msg = (if b then ret () else throw (AssertionError msg))"

definition assert_strictEqual :: "string \<Rightarrow> string \<Rightarrow> unit action" where
  "assert_strictEqual actual expected =
     (if actual = expected then ret () else throw (NotStrictEqual actual expected))"

definition closest_now :: "session \<Rightarrow> node \<Rightarrow> selector \<Rightarrow> node option action" where
  \<comment> \<open>the call \<^verbatim>\<open>await closest(element, selector)\<close>: the walk reads the page of the
      current instant\<close>
  "closest_now d element selector s =
     (case closest (world d (clock s)) element selector of
        None \<Rightarrow> None
      | Some r \<Rightarrow> Some (Inr r, s\<lparr>clock := Suc (clock s)\<rparr>))"

definition find_first :: "session \<Rightarrow> node \<Rightarrow> selector \<Rightarrow> node option action" where
  \<comment> \<open>the source's \<^verbatim>\<open>find(element, selector)\<close>\<close>
  "find_first d element selector =
     bind (find_all_in d element selector)
       (\<lambda>children. ret (if length children > 0 then Some (hd children) else None))"

section \<open>The step handlers\<close>

subsection \<open>Messages\<close>

definition parent_not_found :: "selector \<Rightarrow> selector \<Rightarrow> string" where
  "parent_not_found parentSelector selector =
     ''No se encontr'' @ [o_acute] @ '' el padre '' @ quoted parentSelector @ '' desde '' @ quoted selector"

definition element_not_found :: "selector \<Rightarrow> selector \<Rightarrow> string" where
  "element_not_found selector parentSelector =
     ''No se encontr'' @ [o_acute] @ '' el elemento '' @ quoted selector
       @ '' dentro del padre '' @ quoted parentSelector"

definition url_timeout :: "string \<Rightarrow> string" where
  "url_timeout expectedUrl =
     ''La URL no cambi'' @ [o_acute] @ '' a '' @ quoted expectedUrl
       @ '' despu'' @ [e_acute] @ ''s de 10 segundos''"

definition text_timeout :: "string \<Rightarrow> selector \<Rightarrow> string" where
  "text_timeout expectedText elementSelector =
     ''El texto '' @ quoted expectedText @ '' no apareci'' @ [o_acute]
       @ '' dentro del elemento '' @ quoted elementSelector"

definition text_not_found :: "string \<Rightarrow> string" where
  "text_not_found expectedText =
     ''No se encontr'' @ [o_acute] @ '' el texto '' @ quoted expectedText @ '' en el elemento''"

definition attribute_timeout :: "string \<Rightarrow> string \<Rightarrow> selector \<Rightarrow> string" where
  "attribute_timeout expectedValue attributeName selector =
     ''El valor '' @ quoted expectedValue @ '' no apareci'' @ [o_acute]
       @ '' en el atributo '' @ quoted attributeName @ '' del elemento '' @ quoted selector"

definition show_value :: "string option \<Rightarrow> string" where
  \<comment> \<open>a value inside a template string: \<^verbatim>\<open>null\<close> prints as the word\<close>
  "show_value v = (case v of None \<Rightarrow> ''null'' | Some a \<Rightarrow> a)"

definition attribute_mismatch :: "string \<Rightarrow> string \<Rightarrow> string option \<Rightarrow> string" where
  "attribute_mismatch attributeName expectedValue finalAttr =
     ''Se esperaba que el atributo '' @ quoted attributeName @ '' contuviera ''
       @ quoted expectedValue @ '' pero fue '' @ quoted (show_value finalAttr)"

subsection \<open>Keys\<close>

text \<open>
  \<^verbatim>\<open>keyMap[keyName]\<close> reads a property of an object literal: an own property when the
  literal has the name, otherwise what the literal inherits from \<^verbatim>\<open>Object.prototype\<close>
  (a function or an object, so a truthy value that is not a string), otherwise
  \<^verbatim>\<open>undefined\<close>.
\<close>

datatype 'a property = Own 'a | Inherited string | Undefined

definition object_prototype :: "string list" where
  "object_prototype =
     [''constructor'', ''__defineGetter__'', ''__defineSetter__'', ''hasOwnProperty'',
      ''__lookupGetter__'', ''__lookupSetter__'', ''isPrototypeOf'', ''propertyIsEnumerable'',
      ''toString'', ''valueOf'', ''__proto__'', ''toLocaleString'']"

definition get_property :: "(string \<times> 'a) list \<Rightarrow> string \<Rightarrow> 'a property" where
  "get_property obj name =
     (case map_of obj name of
        Some v \<Rightarrow> Own v
      | None \<Rightarrow> if name \<in> set object_prototype then Inherited name else Undefined)"

definition keyMap :: "(string \<times> 16 word) list" where
  "keyMap =
     [(''Enter'', 0xE007),
      (''Esc'', 0xE00C),
      (''Escape'', 0xE00C),
      (''Tab'', 0xE004),
      (''ArrowDown'', 0xE015),
      (''ArrowUp'', 0xE013)]"

definition unsupported_key :: "string \<Rightarrow> string" where
  "unsupported_key keyName =
     ''Tecla '' @ quoted keyName @ '' no est'' @ [a_acute] @ '' soportada.''"

text \<open>When \<^verbatim>\<open>I press key {kraken-string}\<close>\<close>

definition press_key :: "string \<Rightarrow> unit action" where
  "press_key keyName =
     (case get_property keyMap keyName of
        Undefined \<Rightarrow> throw (Error (unsupported_key keyName))
      | Own keyCode \<Rightarrow> keys (KeyCode keyCode)
      | Inherited v \<Rightarrow> keys (NotAString v))"

subsection \<open>Screenshot\<close>

text \<open>
  What the handler takes from its host: the environment variable, the location of the
  feature being run, and the two functions of the platform's \<^verbatim>\<open>path\<close> module.
\<close>

record host =
  VERSION :: "string option"
  featureLocation :: string
  basename :: "string \<Rightarrow> string"
  dirname :: "string \<Rightarrow> string"

definition existsSync :: "string \<Rightarrow> bool action" where
  "existsSync path s = Some (Inr (path \<in> paths s), s)"

definition leading_dirs :: "string \<Rightarrow> string list" where
  "leading_dirs path = map (\<lambda>i. take i path) (filter (\<lambda>i. path ! i = CHR ''/'') [1..<length path])"

definition mkdirSync_recursive :: "string \<Rightarrow> unit action" where
  "mkdirSync_recursive path s =
     Some (Inr (), s\<lparr>trace := trace s @ [MkdirSync path],
                      paths := paths s \<union> set (path # leading_dirs path)\<rparr>)"

definition saveScreenshot :: "string \<Rightarrow> unit action" where
  "saveScreenshot path s =
     Some (Inr (), (issue (SaveScreenshot path) s)\<lparr>paths := insert path (paths s)\<rparr>)"

definition version_of :: "host \<Rightarrow> string" where
  \<comment> \<open>\<^verbatim>\<open>process.env.VERSION || "default"\<close>: unset and empty are both falsy\<close>
  "version_of h = (case VERSION h of None \<Rightarrow> ''default'' | Some v \<Rightarrow> if v = [] then ''default'' else v)"

definition screenshot_file :: "host \<Rightarrow> string" where
  "screenshot_file h =
     (let version = version_of h;
          screenshotName = hd (split_on (CHR ''.'') (basename h (featureLocation h)))
      in ''screenshots/'' @ version @ ''/'' @ screenshotName @ ''.png'')"

text \<open>Then \<^verbatim>\<open>I take a screenshot\<close>\<close>

definition take_screenshot :: "host \<Rightarrow> unit action" where
  "take_screenshot h =
     (let nombreArchivo = screenshot_file h;
          dirPath = dirname h nombreArchivo
      in bind (existsSync dirPath) (\<lambda>there.
         bind (if \<not> there
               then bind (mkdirSync_recursive dirPath) (\<lambda>_. console_log (''Carpeta creada: '' @ dirPath))
               else ret ()) (\<lambda>_.
         bind (saveScreenshot nombreArchivo) (\<lambda>_.
         console_log (''Screenshot guardado: '' @ nombreArchivo)))))"

subsection \<open>Page URL\<close>

text \<open>Then \<^verbatim>\<open>I should be on the {kraken-string} page\<close>\<close>

definition should_be_on_page :: "session \<Rightarrow> string \<Rightarrow> unit action" where
  "should_be_on_page d expectedUrl =
     bind (waitUntil d (\<lambda>p. getUrl p = expectedUrl) 10000 (url_timeout expectedUrl)) (\<lambda>_.
     bind (read_url d) (\<lambda>finalUrl.
     assert_strictEqual finalUrl expectedUrl))"

subsection \<open>Click, clear, enter, see\<close>

text \<open>
  After \<^verbatim>\<open>assert.ok(x, msg)\<close> has passed, \<open>x\<close> is not \<^verbatim>\<open>null\<close>, and \<open>the x\<close> is the
  handle the source goes on with.
\<close>

text \<open>When \<^verbatim>\<open>I click element {kraken-string}\<close>\<close>

definition click_element :: "session \<Rightarrow> selector \<Rightarrow> unit action" where
  "click_element d selector =
     bind (find_element d selector) (\<lambda>element.
     bind (waitForDisplayed d element 5000) (\<lambda>_.
     bind (waitForClickable d element 5000) (\<lambda>_.
     click element)))"

text \<open>When \<^verbatim>\<open>I click element {kraken-string} in closest parent {kraken-string}\<close>\<close>

definition click_element_in_closest_parent :: "session \<Rightarrow> selector \<Rightarrow> selector \<Rightarrow> unit action" where
  "click_element_in_closest_parent d selector parentSelector =
     bind (find_element d selector) (\<lambda>baseElement.
     bind (closest_now d baseElement parentSelector) (\<lambda>parentElement.
     bind (assert_ok (parentElement \<noteq> None) (parent_not_found parentSelector selector)) (\<lambda>_.
     bind (find_in d (the parentElement) selector) (\<lambda>element.
     bind (waitForDisplayed d element 5000) (\<lambda>_.
     bind (waitForClickable d element 5000) (\<lambda>_.
     click element))))))"

text \<open>When \<^verbatim>\<open>I click element {kraken-string} in closest parent {kraken-string} with child {kraken-string}\<close>\<close>

definition click_element_in_closest_parent_with_child :: "session \<Rightarrow> selector \<Rightarrow> selector \<Rightarrow> selector \<Rightarrow> unit action" where
  "click_element_in_closest_parent_with_child d selector parentSelector childSelector =
     bind (find_element d childSelector) (\<lambda>childElement.
     bind (waitForDisplayed d childElement 10000) (\<lambda>_.
     bind (closest_now d childElement parentSelector) (\<lambda>parentElement.
     bind (assert_ok (parentElement \<noteq> None) (parent_not_found parentSelector childSelector)) (\<lambda>_.
     bind (find_first d (the parentElement) selector) (\<lambda>element.
     bind (assert_ok (element \<noteq> None) (element_not_found selector parentSelector)) (\<lambda>_.
     bind (waitForDisplayed d (the element) 5000) (\<lambda>_.
     bind (waitForClickable d (the element) 5000) (\<lambda>_.
     click (the element)))))))))"

text \<open>When \<^verbatim>\<open>I clear element {kraken-string}\<close>\<close>

definition clear_element :: "session \<Rightarrow> selector \<Rightarrow> unit action" where
  "clear_element d selector =
     bind (find_element d selector) (\<lambda>element.
     bind (waitForDisplayed d element 5000) (\<lambda>_.
     bind (click element) (\<lambda>_.
     bind (keys (KeyChord [''Control'', ''a''])) (\<lambda>_.
     keys (KeyText ''Backspace'')))))"

text \<open>When \<^verbatim>\<open>I clear element {kraken-string} in closest parent {kraken-string}\<close>\<close>

definition clear_element_in_closest_parent :: "session \<Rightarrow> selector \<Rightarrow> selector \<Rightarrow> unit action" where
  "clear_element_in_closest_parent d selector parentSelector =
     bind (find_element d selector) (\<lambda>baseElement.
     bind (closest_now d baseElement parentSelector) (\<lambda>parentElement.
     bind (assert_ok (parentElement \<noteq> None) (parent_not_found parentSelector selector)) (\<lambda>_.
     bind (find_in d (the parentElement) selector) (\<lambda>element.
     bind (waitForDisplayed d element 5000) (\<lambda>_.
     bind (click element) (\<lambda>_.
     bind (keys (KeyChord [''Control'', ''a''])) (\<lambda>_.
     keys (KeyText ''Backspace''))))))))"

text \<open>When \<^verbatim>\<open>I clear element {kraken-string} in closest parent {kraken-string} with child {kraken-string}\<close>\<close>

definition clear_element_in_closest_parent_with_child :: "session \<Rightarrow> selector \<Rightarrow> selector \<Rightarrow> selector \<Rightarrow> unit action" where
  "clear_element_in_closest_parent_with_child d selector parentSelector childSelector =
     bind (find_element d childSelector) (\<lambda>childElement.
     bind (waitForDisplayed d childElement 10000) (\<lambda>_.
     bind (closest_now d childElement parentSelector) (\<lambda>parentElement.
     bind (assert_ok (parentElement \<noteq> None) (parent_not_found parentSelector childSelector)) (\<lambda>_.
     bind (find_first d (the parentElement) selector) (\<lambda>element.
     bind (assert_ok (element \<noteq> None) (element_not_found selector parentSelector)) (\<lambda>_.
     bind (waitForDisplayed d (the element) 5000) (\<lambda>_.
     bind (click (the element)) (\<lambda>_.
     bind (keys (KeyChord [''Control'', ''a''])) (\<lambda>_.
     keys (KeyText ''Backspace''))))))))))"

text \<open>When \<^verbatim>\<open>I enter {kraken-string} into element {kraken-string}\<close>\<close>

definition enter_into_element :: "session \<Rightarrow> string \<Rightarrow> selector \<Rightarrow> unit action" where
  "enter_into_element d text childSelector =
     bind (find_element d childSelector) (\<lambda>inputElement.
     bind (waitForDisplayed d inputElement 5000) (\<lambda>_.
     bind (click inputElement) (\<lambda>_.
     bind (keys (KeyChord [''Control'', ''a''])) (\<lambda>_.
     bind (keys (KeyText ''Backspace'')) (\<lambda>_.
     keys (KeyText text))))))"

text \<open>When \<^verbatim>\<open>I enter {kraken-string} into element {kraken-string} in closest parent {kraken-string}\<close>\<close>

definition enter_into_element_in_closest_parent :: "session \<Rightarrow> string \<Rightarrow> selector \<Rightarrow> selector \<Rightarrow> unit action" where
  "enter_into_element_in_closest_parent d text childSelector parentSelector =
     bind (find_element d childSelector) (\<lambda>baseElement.
     bind (closest_now d baseElement parentSelector) (\<lambda>parentElement.
     bind (assert_ok (parentElement \<noteq> None) (parent_not_found parentSelector childSelector)) (\<lambda>_.
     bind (find_in d (the parentElement) childSelector) (\<lambda>inputElement.
     bind (waitForDisplayed d inputElement 5000) (\<lambda>_.
     bind (click inputElement) (\<lambda>_.
     bind (keys (KeyChord [''Control'', ''a''])) (\<lambda>_.
     bind (keys (KeyText ''Backspace'')) (\<lambda>_.
     keys (KeyText text)))))))))"

text \<open>When \<^verbatim>\<open>I enter {kraken-string} into element {kraken-string} in closest parent {kraken-string} with child {kraken-string}\<close>\<close>

definition enter_into_element_in_closest_parent_with_child :: "session \<Rightarrow> string \<Rightarrow> selector \<Rightarrow> selector \<Rightarrow> selector \<Rightarrow> unit action" where
  "enter_into_element_in_closest_parent_with_child d text childSelector parentSelector baseSelector =
     bind (find_element d baseSelector) (\<lambda>childElement.
     bind (waitForDisplayed d childElement 10000) (\<lambda>_.
     bind (closest_now d childElement parentSelector) (\<lambda>parentElement.
     bind (assert_ok (parentElement \<noteq> None) (parent_not_found parentSelector baseSelector)) (\<lambda>_.
     bind (find_first d (the parentElement) childSelector) (\<lambda>inputElement.
     bind (assert_ok (inputElement \<noteq> None) (element_not_found childSelector parentSelector)) (\<lambda>_.
     setValue (the inputElement) text))))))"

text \<open>Then \<^verbatim>\<open>I should see {kraken-string} in element {kraken-string}\<close>\<close>

definition should_see_in_element :: "session \<Rightarrow> string \<Rightarrow> selector \<Rightarrow> unit action" where
  "should_see_in_element d expectedText elementSelector =
     bind (find_element d elementSelector) (\<lambda>targetElement.
     bind (waitUntil d (\<lambda>p. includes_str (getText p targetElement) expectedText) 10000 (text_timeout expectedText elementSelector)) (\<lambda>_.
     bind (read_text d targetElement) (\<lambda>finalText.
     bind (console_log (''Texto final encontrado: '' @ quoted finalText)) (\<lambda>_.
     assert_ok (includes_str finalText expectedText) (text_not_found expectedText)))))"

text \<open>Then \<^verbatim>\<open>I should see {kraken-string} in element {kraken-string} in closest parent {kraken-string}\<close>\<close>

definition should_see_in_element_in_closest_parent :: "session \<Rightarrow> string \<Rightarrow> selector \<Rightarrow> selector \<Rightarrow> unit action" where
  "should_see_in_element_in_closest_parent d expectedText elementSelector parentSelector =
     bind (find_element d elementSelector) (\<lambda>baseElement.
     bind (closest_now d baseElement parentSelector) (\<lambda>parentElement.
     bind (assert_ok (parentElement \<noteq> None) (parent_not_found parentSelector elementSelector)) (\<lambda>_.
     bind (find_in d (the parentElement) elementSelector) (\<lambda>targetElement.
     bind (waitUntil d (\<lambda>p. includes_str (getText p targetElement) expectedText) 10000 (text_timeout expectedText elementSelector)) (\<lambda>_.
     bind (read_text d targetElement) (\<lambda>finalText.
     bind (console_log (''Texto final encontrado: '' @ quoted finalText)) (\<lambda>_.
     assert_ok (includes_str finalText expectedText) (text_not_found expectedText))))))))"

text \<open>Then \<^verbatim>\<open>I should see {kraken-string} in element {kraken-string} in closest parent {kraken-string} with child {kraken-string}\<close>\<close>

definition should_see_in_element_in_closest_parent_with_child :: "session \<Rightarrow> string \<Rightarrow> selector \<Rightarrow> selector \<Rightarrow> selector \<Rightarrow> unit action" where
  "should_see_in_element_in_closest_parent_with_child d expectedText elementSelector parentSelector childSelector =
     bind (find_element d childSelector) (\<lambda>childElement.
     bind (waitForDisplayed d childElement 10000) (\<lambda>_.
     bind (closest_now d childElement parentSelector) (\<lambda>parentElement.
     bind (assert_ok (parentElement \<noteq> None) (parent_not_found parentSelector childSelector)) (\<lambda>_.
     bind (find_first d (the parentElement) elementSelector) (\<lambda>targetElement.
     bind (assert_ok (targetElement \<noteq> None) (element_not_found elementSelector parentSelector)) (\<lambda>_.
     bind (waitUntil d (\<lambda>p. includes_str (getText p (the targetElement)) expectedText) 10000 (text_timeout expectedText elementSelector)) (\<lambda>_.
     bind (read_text d (the targetElement)) (\<lambda>finalText.
     bind (console_log (''Texto final encontrado: '' @ quoted finalText)) (\<lambda>_.
     assert_ok (includes_str finalText expectedText) (text_not_found expectedText))))))))))"

subsection \<open>Attribute\<close>

definition attribute_seen :: "string option \<Rightarrow> string \<Rightarrow> bool" where
  \<comment> \<open>\<^verbatim>\<open>attr && attr.includes(expectedValue)\<close> taken as a condition: a null and an
      empty attribute are falsy\<close>
  "attribute_seen attr expectedValue =
     (case attr of None \<Rightarrow> False | Some a \<Rightarrow> a \<noteq> [] \<and> includes_str a expectedValue)"

definition final_attribute_check :: "string option \<Rightarrow> string \<Rightarrow> string \<Rightarrow> unit action" where
  \<comment> \<open>\<^verbatim>\<open>assert.ok(finalAttr.includes(expectedValue), msg)\<close>: the method call on
      \<^verbatim>\<open>null\<close> throws before \<^verbatim>\<open>assert.ok\<close> is entered\<close>
  "final_attribute_check finalAttr attributeName expectedValue =
     (case finalAttr of
        None \<Rightarrow> throw (TypeError ''Cannot read properties of null'')
      | Some a \<Rightarrow>
          assert_ok (includes_str a expectedValue)
            (attribute_mismatch attributeName expectedValue finalAttr))"

text \<open>Then \<^verbatim>\<open>I should see {kraken-string} in attribute {kraken-string} of element {kraken-string}\<close>\<close>

definition should_see_in_attribute :: "session \<Rightarrow> string \<Rightarrow> string \<Rightarrow> selector \<Rightarrow> unit action" where
  "should_see_in_attribute d expectedValue attributeName selector =
     bind (find_element d selector) (\<lambda>element.
     bind (waitUntil d (\<lambda>p. attribute_seen (getAttribute p element attributeName) expectedValue) 10000
             (attribute_timeout expectedValue attributeName selector)) (\<lambda>_.
     bind (read_attribute d element attributeName) (\<lambda>finalAttr.
     bind (console_log (''Valor final del atributo '' @ quoted attributeName @ '': ''
             @ quoted (show_value finalAttr))) (\<lambda>_.
     final_attribute_check finalAttr attributeName expectedValue))))"

section \<open>Words of the specification\<close>

text \<open>
  The class token list of the specification: the \<open>class\<close> attribute tokenized on
  whitespace (space, tab, line feed, form feed, carriage return), so the non-empty pieces
  between whitespace characters. An absent attribute has no token.
\<close>

definition odd_space :: "char \<Rightarrow> bool" where
  \<comment> \<open>tab, line feed, form feed, carriage return\<close>
  "odd_space c = (c \<in> set [CHR 0x09, CHR 0x0A, CHR 0x0C, CHR 0x0D])"

definition is_space :: "char \<Rightarrow> bool" where
  "is_space c = (c = CHR '' '' \<or> odd_space c)"

fun split_where :: "('a \<Rightarrow> bool) \<Rightarrow> 'a list \<Rightarrow> 'a list list" where
  "split_where P [] = [[]]"
| "split_where P (c # cs) =
     (if P c then [] # split_where P cs
      else (case split_where P cs of
              [] \<Rightarrow> [[c]]
            | t # ts \<Rightarrow> (c # t) # ts))"

definition class_tokens :: "string \<Rightarrow> string list" where
  "class_tokens a = filter (\<lambda>t. t \<noteq> []) (split_where is_space a)"

definition in_class_list :: "page \<Rightarrow> string \<Rightarrow> node \<Rightarrow> bool" where
  \<comment> \<open>the class token list of the node includes the class \<open>C\<close>\<close>
  "in_class_list p C n =
     (case getAttribute p n ''class'' of
        None \<Rightarrow> False
      | Some a \<Rightarrow> C \<in> set (class_tokens a))"

definition listed :: "page \<Rightarrow> string \<Rightarrow> node list \<Rightarrow> node list" where
  "listed p C ns = filter (in_class_list p C) ns"

definition plain_class :: "page \<Rightarrow> node \<Rightarrow> bool" where
  \<comment> \<open>the \<open>class\<close> attribute of the node, when it has one, holds no whitespace but the
      space character\<close>
  "plain_class p n =
     (case getAttribute p n ''class'' of
        None \<Rightarrow> True
      | Some a \<Rightarrow> filter odd_space a = [])"

definition strip_extension :: "string \<Rightarrow> string" where
  \<comment> \<open>a file name with its extension stripped: the name up to its last dot; a name with
      no dot, or whose only dot is its first character, has no extension\<close>
  "strip_extension name =
     (let stem = rev (drop 1 (dropWhile (\<lambda>c. c \<noteq> CHR ''.'') (rev name)))
      in if stem = [] then name else stem)"

definition digits_of :: "string \<Rightarrow> string" where
  \<comment> \<open>the decimal digits a message holds, in order\<close>
  "digits_of msg = filter (\<lambda>c. c \<in> set ''0123456789'') msg"

section \<open>Concrete pages, sessions and hosts\<close>

definition start :: state where
  "start = \<lparr>clock = 0, trace = [], paths = {}\<rparr>"

text \<open>
  \<^verbatim>\<open><html class="dark"><body><div id="x"></div></body></html>\<close>, with the nodes
  numbered from the root: 0, 1, 2.
\<close>

definition dark_page :: page where
  "dark_page =
     \<lparr>getUrl = ''http://localhost/'',
      parent = (\<lambda>n. if n = 2 then Some 1 else if n = 1 then Some 0 else None),
      getTagName = (\<lambda>n. if n = 0 then ''html'' else if n = 1 then ''body'' else ''div''),
      getAttribute = (\<lambda>n a. if n = 0 \<and> a = ''class'' then Some ''dark'' else None),
      getText = (\<lambda>n. []),
      isDisplayed = (\<lambda>n. True),
      isClickable = (\<lambda>n. True),
      query = (\<lambda>sel. 2),
      query_in = (\<lambda>n sel. 2),
      query_all = (\<lambda>n sel. [])\<rparr>"

text \<open>
  \<^verbatim>\<open><html><body><div class="card"><div class="row card inner">
     <span id="x"></span><input hidden></div></div></body></html>\<close>,
  with the nodes numbered 0 (html), 1 (body), 2 and 3 (the two divs), 4 (the span) and
  5 (the input, which is never displayed).
\<close>

definition card_page :: page where
  "card_page =
     \<lparr>getUrl = ''http://localhost/cards'',
      parent = (\<lambda>n. if n = 5 \<or> n = 4 then Some 3 else if n = 3 then Some 2
                     else if n = 2 then Some 1 else if n = 1 then Some 0 else None),
      getTagName = (\<lambda>n. if n = 0 then ''html'' else if n = 1 then ''body''
                     else if n = 4 then ''span'' else if n = 5 then ''input'' else ''div''),
      getAttribute = (\<lambda>n a. if a = ''class'' \<and> n = 2 then Some ''card''
                     else if a = ''class'' \<and> n = 3 then Some ''row card inner'' else None),
      getText = (\<lambda>n. []),
      isDisplayed = (\<lambda>n. n \<noteq> 5),
      isClickable = (\<lambda>n. n \<noteq> 5),
      query = (\<lambda>sel. if sel = ''input'' then 5 else 4),
      query_in = (\<lambda>n sel. if sel = ''input'' then 5 else 4),
      query_all = (\<lambda>n sel. if sel = ''input'' then [5] else if sel = ''#x'' then [4] else [])\<rparr>"

definition card_session :: session where
  \<comment> \<open>a page that never changes; a wait looks once every 2500 ms\<close>
  "card_session = \<lparr>world = (\<lambda>t. card_page), ticks = (\<lambda>ms. ms div 2500)\<rparr>"

definition flip_session :: session where
  \<comment> \<open>the attributes of every element are \<open>Saved\<close> up to instant 1 and absent from
      instant 2 on\<close>
  "flip_session =
     \<lparr>world = (\<lambda>t. card_page\<lparr>getAttribute := (\<lambda>n a. if t < 2 then Some ''Saved'' else None)\<rparr>),
      ticks = (\<lambda>ms. ms div 2500)\<rparr>"

definition late_session :: session where
  \<comment> \<open>the attributes are \<open>Saving\<close> up to instant 1, \<open>Saved\<close> at instant 2 and absent
      from instant 3 on\<close>
  "late_session =
     \<lparr>world = (\<lambda>t. card_page\<lparr>getAttribute :=
                (\<lambda>n a. if t < 2 then Some ''Saving'' else if t = 2 then Some ''Saved'' else None)\<rparr>),
      ticks = (\<lambda>ms. ms div 2500)\<rparr>"

definition regress_session :: session where
  \<comment> \<open>URL, texts and attributes show \<open>Saved\<close> up to instant 1 and \<open>Gone\<close> afterwards\<close>
  "regress_session =
     \<lparr>world = (\<lambda>t. card_page\<lparr>getUrl := (if t < 2 then ''Saved'' else ''Gone''),
                getAttribute := (\<lambda>n a. if t < 2 then Some ''Saved'' else Some ''Gone''),
                getText := (\<lambda>n. if t < 2 then ''Saved'' else ''Gone'')\<rparr>),
      ticks = (\<lambda>ms. ms div 2500)\<rparr>"

text \<open>
  The two functions of the \<^verbatim>\<open>path\<close> module on a POSIX host. \<open>posix_basename\<close> drops
  trailing slashes and keeps what follows the last slash left. \<open>posix_dirname\<close> looks from
  the end, never at the first character: past trailing slashes, past the last component,
  and returns the path up to the slash it meets there; with no such slash it returns the
  root or the dot.
\<close>

definition posix_basename :: "string \<Rightarrow> string" where
  "posix_basename path =
     rev (takeWhile (\<lambda>c. c \<noteq> CHR ''/'') (dropWhile (\<lambda>c. c = CHR ''/'') (rev path)))"

definition posix_dirname :: "string \<Rightarrow> string" where
  "posix_dirname path =
     (case path of
        [] \<Rightarrow> ''.''
      | c # body \<Rightarrow>
          (case dropWhile (\<lambda>x. x \<noteq> CHR ''/'') (dropWhile (\<lambda>x. x = CHR ''/'') (rev body)) of
             [] \<Rightarrow> if c = CHR ''/'' then ''/'' else ''.''
           | s # rest \<Rightarrow> if c = CHR ''/'' \<and> rest = [] then ''//'' else c # rev rest))"




text \<open>
  The card page with other class attributes: in \<open>tab_page\<close> the inner div has
  \<^verbatim>\<open>class="row<TAB>card"\<close> and no other node has a class; in \<open>blank_page\<close> the inner div
  has \<^verbatim>\<open>class=" "\<close>.
\<close>

definition tab_page :: page where
  "tab_page =
     card_page\<lparr>getAttribute :=
       (\<lambda>n a. if a = ''class'' \<and> n = 3 then Some (''row'' @ [CHR 0x09] @ ''card'') else None)\<rparr>"

definition blank_page :: page where
  "blank_page =
     card_page\<lparr>getAttribute := (\<lambda>n a. if a = ''class'' \<and> n = 3 then Some '' '' else None)\<rparr>"

section \<open>Running the handlers\<close>

lemmas run_defs =
  bind_def ret_def throw_def command_def observe_def issue_def waiting_def
  find_element_def find_in_def find_all_in_def find_first_def
  waitForDisplayed_def waitForClickable_def waitUntil_def click_def keys_def setValue_def
  read_url_def read_text_def read_attribute_def console_log_def assert_ok_def
  assert_strictEqual_def closest_now_def

section \<open>The ancestor walk\<close>

lemma closest_loop_chain:
  "chain_of p x ns \<Longrightarrow>
   closest_loop p selector x = Some (List.find (has_class p selector) (below_root p ns))"
proof (induction rule: chain_of.induct)
  case chain_end
  show ?case by (simp add: closest_loop.simps below_root_def)
next
  case (chain_step n ns)
  then show ?case
    by (subst closest_loop.simps) (simp add: below_root_def not_root_def)
qed

lemma find_filter_Nil: "filter P xs = [] \<Longrightarrow> List.find P xs = None"
  by (induction xs) (auto split: if_splits)

lemma find_filter_Cons: "filter P xs = y # ys \<Longrightarrow> List.find P xs = Some y"
  by (induction xs) (auto split: if_splits)

lemma card_chain: "chain_of card_page (parent card_page 4) [3, 2, 1, 0]"
proof -
  have "chain_of card_page (parent card_page 0) []"
    by (simp add: card_page_def chain_end)
  then have "chain_of card_page (Some 0) [0]" by (rule chain_step)
  then have "chain_of card_page (parent card_page 1) [0]" by (simp add: card_page_def)
  then have "chain_of card_page (Some 1) [1, 0]" by (rule chain_step)
  then have "chain_of card_page (parent card_page 2) [1, 0]" by (simp add: card_page_def)
  then have "chain_of card_page (Some 2) [2, 1, 0]" by (rule chain_step)
  then have "chain_of card_page (parent card_page 3) [2, 1, 0]" by (simp add: card_page_def)
  then have "chain_of card_page (Some 3) [3, 2, 1, 0]" by (rule chain_step)
  then show ?thesis by (simp add: card_page_def)
qed

lemma split_where_plain:
  "filter odd_space a = [] \<Longrightarrow> split_where is_space a = split_on (CHR '' '') a"
  by (induction a) (auto simp: is_space_def split: if_splits)

lemma has_class_plain:
  assumes "C \<noteq> []" and "plain_class p n"
  shows "has_class p (CHR ''.'' # C) n = in_class_list p C n"
proof (cases "getAttribute p n ''class''")
  case None
  then show ?thesis by (simp add: has_class_def class_matches_def in_class_list_def)
next
  case (Some a)
  with assms(2) have "split_where is_space a = split_on (CHR '' '') a"
    by (simp add: plain_class_def split_where_plain)
  with Some assms(1) show ?thesis
    by (cases a) (auto simp: has_class_def class_matches_def class_name_def in_class_list_def
        class_tokens_def)
qed

lemma listed_plain:
  assumes "C \<noteq> []" and "list_all (plain_class p) xs"
  shows "filter (has_class p (CHR ''.'' # C)) xs = listed p C xs"
  unfolding listed_def
  using assms by (intro filter_cong refl has_class_plain) (auto simp: list_all_iff)

text \<open>
  C1, as the code has it. Let \<open>ns\<close> be the ancestors of \<open>e\<close>, nearest first, and take
  those strictly below the first node whose tag is \<open>html\<close>: the loop leaves before it
  reads the class of that node. Let \<open>C\<close> be a class name that is not empty, and let the
  class attributes of these ancestors hold no whitespace but the space character. Called
  with the class selector of \<open>C\<close> (a dot and the name): when exactly one of them has
  \<open>C\<close> in its class token list, \<open>closest\<close> returns it; when several have, \<open>closest\<close>
  returns the nearest; when none has, \<open>closest\<close> returns \<^verbatim>\<open>null\<close>. The class token list
  is the one of the specification, tokenized on whitespace.
\<close>

theorem closest_nearest_below_root:
  assumes "chain_of p (parent p e) ns"
    and "C \<noteq> []"
    and "list_all (plain_class p) (below_root p ns)"
  shows "(listed p C (below_root p ns) = [m] \<longrightarrow> closest p e (CHR ''.'' # C) = Some (Some m))
       \<and> (listed p C (below_root p ns) = m # ms \<longrightarrow> closest p e (CHR ''.'' # C) = Some (Some m))
       \<and> (listed p C (below_root p ns) = [] \<longrightarrow> closest p e (CHR ''.'' # C) = Some None)"
  using closest_loop_chain [OF assms(1), of "CHR ''.'' # C"] listed_plain [OF assms(2) assms(3)]
  by (auto simp: closest_def find_filter_Nil find_filter_Cons)

lemmas token_eval =
  card_page_def listed_def in_class_list_def class_tokens_def is_space_def odd_space_def
  below_root_def upto_root_def not_root_def plain_class_def

text \<open>
  C1, witness: in the card page the span has, below the root, one ancestor of class
  \<open>inner\<close>, two of class \<open>card\<close> (the nearer is node 3) and none of class \<open>none\<close>.
\<close>

theorem closest_nearest_below_root_witness:
  "closest card_page 4 ''.inner'' = Some (Some 3)
   \<and> closest card_page 4 ''.card'' = Some (Some 3)
   \<and> closest card_page 4 ''.none'' = Some None"
proof -
  have plain: "list_all (plain_class card_page) (below_root card_page [3, 2, 1, 0])"
    by (simp add: token_eval)
  have one: "listed card_page ''inner'' (below_root card_page [3, 2, 1, 0]) = [3]"
    by (simp add: token_eval)
  have two: "listed card_page ''card'' (below_root card_page [3, 2, 1, 0]) = 3 # [2]"
    by (simp add: token_eval)
  have none: "listed card_page ''none'' (below_root card_page [3, 2, 1, 0]) = []"
    by (simp add: token_eval)
  have ne: "''inner'' \<noteq> []" "''card'' \<noteq> []" "''none'' \<noteq> []"
    by simp_all
  show ?thesis
    using closest_nearest_below_root [OF card_chain ne(1) plain, of 3 "[]"]
      closest_nearest_below_root [OF card_chain ne(2) plain, of 3 "[2]"]
      closest_nearest_below_root [OF card_chain ne(3) plain, of 3 "[]"]
      one two none
    by simp
qed

lemma dark_chain: "chain_of dark_page (parent dark_page 2) [1, 0]"
proof -
  have "chain_of dark_page (parent dark_page 0) []"
    by (simp add: dark_page_def chain_end)
  then have "chain_of dark_page (Some 0) [0]" by (rule chain_step)
  then have "chain_of dark_page (parent dark_page 1) [0]" by (simp add: dark_page_def)
  then have "chain_of dark_page (Some 1) [1, 0]" by (rule chain_step)
  then show ?thesis by (simp add: dark_page_def)
qed

text \<open>
  C1, counterexample to the claim as stated, with the chain ending at the \<open>html\<close>
  element and that element in it: in \<^verbatim>\<open><html class="dark">\<close> the chain of the div is
  body, html; exactly one of its nodes has the class \<open>dark\<close>, the root; \<open>closest\<close>
  returns \<^verbatim>\<open>null\<close> and not that node.
\<close>

theorem closest_root_class_counterexample:
  "chain_of dark_page (parent dark_page 2) [1, 0]
   \<and> listed dark_page ''dark'' (upto_root dark_page [1, 0]) = [0]
   \<and> closest dark_page 2 ''.dark'' = Some None"
  using dark_chain
  by (simp add: dark_page_def closest_def closest_loop.simps listed_def in_class_list_def
      class_tokens_def is_space_def odd_space_def upto_root_def below_root_def not_root_def
      has_class_def class_matches_def class_name_def)

text \<open>
  Where a class attribute holds other whitespace, or the class name is empty, the test
  of the code and the class token list part: a class after a tab is in the token list
  and is not found by the walk, and the selector of one dot is found in an attribute of
  one space, which has no token.
\<close>

lemma closest_other_whitespace:
  "in_class_list tab_page ''card'' 3"
  "closest tab_page 4 ''.card'' = Some None"
  "class_tokens '' '' = []"
  "closest blank_page 4 ''.'' = Some (Some 3)"
  by (simp_all add: tab_page_def blank_page_def card_page_def in_class_list_def class_tokens_def
      is_space_def odd_space_def closest_def closest_loop.simps has_class_def class_matches_def
      class_name_def)

text \<open>
  C9. When the parent lookups from \<open>e\<close> end (\<open>ns\<close> lists the ancestors), \<open>closest\<close>
  returns. It returns either a node that has the class and lies strictly below the first
  \<open>html\<close> node of the chain, or \<^verbatim>\<open>null\<close>, and then no node below that first \<open>html\<close> node
  has the class: the walk has stopped at the root, or at the end of the chain of a
  detached element. No node at or above the root is ever returned.
\<close>

theorem closest_terminates:
  assumes "chain_of p (parent p e) ns"
  shows "\<exists>r. closest p e selector = Some r \<and>
           (case r of
              Some m \<Rightarrow> m \<in> set (below_root p ns) \<and> has_class p selector m
            | None \<Rightarrow> matching p selector (below_root p ns) = [])"
proof (cases "List.find (has_class p selector) (below_root p ns)")
  case None
  then have "matching p selector (below_root p ns) = []"
    by (auto simp: matching_def find_None_iff filter_empty_conv)
  with None closest_loop_chain [OF assms, of selector] show ?thesis
    by (simp add: closest_def)
next
  case (Some m)
  then have "m \<in> set (below_root p ns) \<and> has_class p selector m"
    by (auto simp: find_Some_iff)
  with Some closest_loop_chain [OF assms, of selector] show ?thesis
    by (simp add: closest_def)
qed

text \<open>
  C9, witness: the chain of the span in the card page is 3, 2, 1, 0 and the walk
  returns.
\<close>

theorem closest_terminates_witness:
  "below_root card_page [3, 2, 1, 0] = [3, 2, 1]
   \<and> (\<exists>r. closest card_page 4 ''.card'' = Some r \<and>
           (case r of
              Some m \<Rightarrow> m \<in> set (below_root card_page [3, 2, 1, 0]) \<and> has_class card_page ''.card'' m
            | None \<Rightarrow> matching card_page ''.card'' (below_root card_page [3, 2, 1, 0]) = []))"
proof -
  have "below_root card_page [3, 2, 1, 0] = [3, 2, 1]"
    by (simp add: below_root_def not_root_def card_page_def)
  then show ?thesis
    using closest_terminates [OF card_chain, of "''.card''"] by blast
qed

section \<open>The class name\<close>

lemma replace_first_split:
  "c \<notin> set u \<Longrightarrow> replace_first c (u @ c # v) = u @ v"
  by (induction u) auto

lemma replace_first_absent: "c \<notin> set xs \<Longrightarrow> replace_first c xs = xs"
  by (induction xs) auto

text \<open>
  C5, as the code has it. The name compared with the class tokens is the selector with
  its first dot removed, wherever that dot stands: a leading dot is stripped and the rest,
  later dots included, is kept; a first dot inside the selector is removed too; a selector
  with no dot is compared as it is.
\<close>

theorem class_name_first_dot:
  "class_matches (Some a) S = (a \<noteq> [] \<and> class_name S \<in> set (split_on (CHR '' '') a))
   \<and> class_name (CHR ''.'' # r) = r
   \<and> (CHR ''.'' \<notin> set u \<longrightarrow> class_name (u @ CHR ''.'' # v) = u @ v)
   \<and> (CHR ''.'' \<notin> set S \<longrightarrow> class_name S = S)"
  by (simp add: class_matches_def class_name_def replace_first_split replace_first_absent)

text \<open>
  C5, witness: \<open>.card\<close>, \<open>.a.b\<close>, \<open>li.item\<close> and \<open>card\<close>.
\<close>

theorem class_name_first_dot_witness:
  "class_matches (Some ''big card'') ''.card''
   \<and> class_name ''.card'' = ''card''
   \<and> class_name ''.a.b'' = ''a.b''
   \<and> class_name ''li.item'' = ''liitem''
   \<and> class_name ''card'' = ''card''"
  using class_name_first_dot [of "''big card''" "''.card''" "''card''" "''li''" "''item''"]
    class_name_first_dot [of "''big card''" "''card''" "''a.b''" "''li''" "''item''"]
  by simp

text \<open>
  C5, counterexample to the claim as stated: the selector \<open>div.card\<close> has no leading
  dot and one dot inside; the compared name is \<open>divcard\<close>, so the dot inside is not
  preserved.
\<close>

theorem class_name_inner_dot_counterexample:
  "class_name ''div.card'' = ''divcard'' \<and> class_name ''div.card'' \<noteq> ''div.card''"
  by (simp add: class_name_def)

section \<open>Scoped steps\<close>

lemma includes_str_append: "includes_str (u @ e @ v) e"
  by (induction u) (auto simp: neq_Nil_conv, (cases e; cases v; simp)+)

lemma includes_quoted: "includes_str (u @ quoted e @ v) e"
  using includes_str_append [of "u @ [CHR 0x22]" e "CHR 0x22 # v"]
  by (simp add: quoted_def)

lemma includes_quoted_end: "includes_str (u @ quoted e) e"
  using includes_quoted [of u e "[]"] by simp

lemma first_true_holds: "first_true c t n = Some k \<Longrightarrow> c k"
  by (induction n arbitrary: t) (auto split: if_splits)

lemma first_true_numeral:
  "first_true c t (numeral k) = (if c t then Some t else first_true c (Suc t) (pred_numeral k))"
  by (simp add: numeral_eq_Suc)

lemmas scoped_defs =
  click_element_in_closest_parent_def clear_element_in_closest_parent_def
  enter_into_element_in_closest_parent_def should_see_in_element_in_closest_parent_def
  click_element_in_closest_parent_with_child_def clear_element_in_closest_parent_with_child_def
  enter_into_element_in_closest_parent_with_child_def
  should_see_in_element_in_closest_parent_with_child_def

lemma card_closest:
  "closest card_page 4 ''.card'' = Some (Some 3)"
  "closest card_page 5 ''.card'' = Some (Some 3)"
  "closest card_page 4 ''.none'' = Some None"
  by (simp_all add: closest_def closest_loop.simps card_page_def has_class_def
      class_matches_def class_name_def)

text \<open>
  C6. In each of the eight handlers with \<open>in closest parent\<close>: when the walk from the
  start element returns \<^verbatim>\<open>null\<close>, the handler throws the assertion error whose message
  is \<open>parent_not_found\<close> of the parent selector and the selector the walk started from, and
  both selectors occur in that message. The trace is then only the lookup of the start
  element (and, in the forms \<open>with child\<close>, the wait for it): nothing is searched inside
  an ancestor and the document is not searched again.
\<close>

theorem ancestor_not_found_fails:
  "(closest (world d (Suc (clock s))) (query (world d (clock s)) sel) psel = Some None \<longrightarrow>
      click_element_in_closest_parent d sel psel s =
        Some (Inl (AssertionError (parent_not_found psel sel)),
              s\<lparr>clock := Suc (Suc (clock s)), trace := trace s @ [Find sel]\<rparr>)
    \<and> clear_element_in_closest_parent d sel psel s =
        Some (Inl (AssertionError (parent_not_found psel sel)),
              s\<lparr>clock := Suc (Suc (clock s)), trace := trace s @ [Find sel]\<rparr>)
    \<and> enter_into_element_in_closest_parent d tx sel psel s =
        Some (Inl (AssertionError (parent_not_found psel sel)),
              s\<lparr>clock := Suc (Suc (clock s)), trace := trace s @ [Find sel]\<rparr>)
    \<and> should_see_in_element_in_closest_parent d tx sel psel s =
        Some (Inl (AssertionError (parent_not_found psel sel)),
              s\<lparr>clock := Suc (Suc (clock s)), trace := trace s @ [Find sel]\<rparr>))
   \<and> (first_true (\<lambda>t. isDisplayed (world d t) (query (world d (clock s)) csel))
         (Suc (clock s)) (ticks d 10000) = Some k
       \<and> closest (world d (Suc k)) (query (world d (clock s)) csel) psel = Some None \<longrightarrow>
      click_element_in_closest_parent_with_child d sel psel csel s =
        Some (Inl (AssertionError (parent_not_found psel csel)),
              s\<lparr>clock := Suc (Suc k),
                trace := trace s @ [Find csel, WaitForDisplayed (query (world d (clock s)) csel) 10000]\<rparr>)
    \<and> clear_element_in_closest_parent_with_child d sel psel csel s =
        Some (Inl (AssertionError (parent_not_found psel csel)),
              s\<lparr>clock := Suc (Suc k),
                trace := trace s @ [Find csel, WaitForDisplayed (query (world d (clock s)) csel) 10000]\<rparr>)
    \<and> enter_into_element_in_closest_parent_with_child d tx sel psel csel s =
        Some (Inl (AssertionError (parent_not_found psel csel)),
              s\<lparr>clock := Suc (Suc k),
                trace := trace s @ [Find csel, WaitForDisplayed (query (world d (clock s)) csel) 10000]\<rparr>)
    \<and> should_see_in_element_in_closest_parent_with_child d tx sel psel csel s =
        Some (Inl (AssertionError (parent_not_found psel csel)),
              s\<lparr>clock := Suc (Suc k),
                trace := trace s @ [Find csel, WaitForDisplayed (query (world d (clock s)) csel) 10000]\<rparr>))
   \<and> includes_str (parent_not_found psel sel) psel
   \<and> includes_str (parent_not_found psel sel) sel"
proof -
  have msg: "includes_str (parent_not_found psel sel) psel \<and> includes_str (parent_not_found psel sel) sel"
    using includes_quoted [of "''No se encontr'' @ [o_acute] @ '' el padre ''" psel "'' desde '' @ quoted sel"]
      includes_quoted_end [of "''No se encontr'' @ [o_acute] @ '' el padre '' @ quoted psel @ '' desde ''" sel]
    by (simp add: parent_not_found_def)
  have a: "closest (world d (Suc (clock s))) (query (world d (clock s)) sel) psel = Some None \<longrightarrow>
      click_element_in_closest_parent d sel psel s =
        Some (Inl (AssertionError (parent_not_found psel sel)),
              s\<lparr>clock := Suc (Suc (clock s)), trace := trace s @ [Find sel]\<rparr>)
    \<and> clear_element_in_closest_parent d sel psel s =
        Some (Inl (AssertionError (parent_not_found psel sel)),
              s\<lparr>clock := Suc (Suc (clock s)), trace := trace s @ [Find sel]\<rparr>)
    \<and> enter_into_element_in_closest_parent d tx sel psel s =
        Some (Inl (AssertionError (parent_not_found psel sel)),
              s\<lparr>clock := Suc (Suc (clock s)), trace := trace s @ [Find sel]\<rparr>)
    \<and> should_see_in_element_in_closest_parent d tx sel psel s =
        Some (Inl (AssertionError (parent_not_found psel sel)),
              s\<lparr>clock := Suc (Suc (clock s)), trace := trace s @ [Find sel]\<rparr>)"
    by (simp add: scoped_defs run_defs)
  have b: "first_true (\<lambda>t. isDisplayed (world d t) (query (world d (clock s)) csel))
         (Suc (clock s)) (ticks d 10000) = Some k
       \<and> closest (world d (Suc k)) (query (world d (clock s)) csel) psel = Some None \<longrightarrow>
      click_element_in_closest_parent_with_child d sel psel csel s =
        Some (Inl (AssertionError (parent_not_found psel csel)),
              s\<lparr>clock := Suc (Suc k),
                trace := trace s @ [Find csel, WaitForDisplayed (query (world d (clock s)) csel) 10000]\<rparr>)
    \<and> clear_element_in_closest_parent_with_child d sel psel csel s =
        Some (Inl (AssertionError (parent_not_found psel csel)),
              s\<lparr>clock := Suc (Suc k),
                trace := trace s @ [Find csel, WaitForDisplayed (query (world d (clock s)) csel) 10000]\<rparr>)
    \<and> enter_into_element_in_closest_parent_with_child d tx sel psel csel s =
        Some (Inl (AssertionError (parent_not_found psel csel)),
              s\<lparr>clock := Suc (Suc k),
                trace := trace s @ [Find csel, WaitForDisplayed (query (world d (clock s)) csel) 10000]\<rparr>)
    \<and> should_see_in_element_in_closest_parent_with_child d tx sel psel csel s =
        Some (Inl (AssertionError (parent_not_found psel csel)),
              s\<lparr>clock := Suc (Suc k),
                trace := trace s @ [Find csel, WaitForDisplayed (query (world d (clock s)) csel) 10000]\<rparr>)"
    by (simp add: scoped_defs run_defs)
  from a b msg show ?thesis by blast
qed

lemma card_session_simps:
  "world card_session t = card_page" "ticks card_session ms = ms div 2500"
  by (simp_all add: card_session_def)

text \<open>
  C6, witness: in the card page no ancestor of the span has the class \<open>none\<close>.
\<close>

theorem ancestor_not_found_fails_witness:
  "click_element_in_closest_parent card_session ''#x'' ''.none'' start =
     Some (Inl (AssertionError (parent_not_found ''.none'' ''#x'')),
           \<lparr>clock = 2, trace = [Find ''#x''], paths = {}\<rparr>)
   \<and> should_see_in_element_in_closest_parent_with_child card_session ''Saved'' ''input'' ''.none'' ''#x'' start =
     Some (Inl (AssertionError (parent_not_found ''.none'' ''#x'')),
           \<lparr>clock = 3, trace = [Find ''#x'', WaitForDisplayed 4 10000], paths = {}\<rparr>)
   \<and> includes_str (parent_not_found ''.none'' ''#x'') ''.none''
   \<and> includes_str (parent_not_found ''.none'' ''#x'') ''#x''"
proof -
  have q: "query card_page ''#x'' = 4"
    by (simp add: card_page_def)
  have a: "closest (world card_session (Suc (clock start))) (query (world card_session (clock start)) ''#x'') ''.none'' = Some None"
    by (simp add: q card_session_simps card_closest)
  have w: "first_true (\<lambda>t. isDisplayed (world card_session t) (query (world card_session (clock start)) ''#x''))
         (Suc (clock start)) (ticks card_session 10000) = Some 1"
    by (simp add: q card_session_simps start_def first_true_numeral card_page_def)
  have b: "closest (world card_session (Suc 1)) (query (world card_session (clock start)) ''#x'') ''.none'' = Some None"
    by (simp add: q card_session_simps card_closest)
  show ?thesis
    using ancestor_not_found_fails [where d = card_session and s = start and sel = "''#x''"
          and psel = "''.none''" and tx = "''Saved''" and csel = "''#x''" and k = 1]
      ancestor_not_found_fails [where d = card_session and s = start and sel = "''input''"
          and psel = "''.none''" and tx = "''Saved''" and csel = "''#x''" and k = 1]
      a w b
    by (simp add: q card_session_simps start_def)
qed

section \<open>Action steps\<close>

text \<open>
  C2 fails in the code. The input of the card page is never displayed. The handler of
  \<^verbatim>\<open>I enter ... into element ... in closest parent ... with child ...\<close> waits only for the
  start element, finds the input and sets its value: no wait for the input stands in the
  trace, and the step succeeds. Its sibling without \<open>with child\<close> waits for the input
  and throws the display timeout.
\<close>

theorem enter_with_child_skips_wait:
  "enter_into_element_in_closest_parent_with_child card_session ''abc'' ''input'' ''.card'' ''#x'' start =
     Some (Inr (), \<lparr>clock = 5,
             trace = [Find ''#x'', WaitForDisplayed 4 10000, FindAllIn 3 ''input'', SetValue 5 ''abc''],
             paths = {}\<rparr>)
   \<and> (\<forall>t. \<not> isDisplayed (world card_session t) 5)
   \<and> enter_into_element_in_closest_parent card_session ''abc'' ''input'' ''.card'' start =
     Some (Inl (DisplayTimeout 5 5000),
           \<lparr>clock = 5, trace = [Find ''input'', FindIn 3 ''input'', WaitForDisplayed 5 5000],
             paths = {}\<rparr>)"
proof -
  have q: "query card_page ''#x'' = 4" "query card_page ''input'' = 5"
    "query_all card_page 3 ''input'' = [5]" "query_in card_page 3 ''input'' = 5"
    "isDisplayed card_page 4" "\<not> isDisplayed card_page 5"
    by (simp_all add: card_page_def)
  show ?thesis
    by (simp add: scoped_defs run_defs start_def card_session_simps q card_closest
        first_true_numeral)
qed

text \<open>
  The other action handlers do wait: when the target is not displayed within the
  budget, each of them throws the display timeout and issues no action, and a click
  also waits for the target to be clickable. The last line of
  \<open>with_child_actions_wait_for_display\<close> is the exception, for every session: the handler
  that sets the value succeeds though its target is never displayed.
\<close>

lemmas action_defs =
  click_element_def clear_element_def enter_into_element_def

lemma unscoped_actions_wait_for_display:
  assumes "first_true (\<lambda>t. isDisplayed (world d t) (query (world d (clock s)) sel))
             (Suc (clock s)) (ticks d 5000) = None"
  shows "click_element d sel s =
           Some (Inl (DisplayTimeout (query (world d (clock s)) sel) 5000),
                 s\<lparr>clock := Suc (clock s) + ticks d 5000,
                   trace := trace s @ [Find sel, WaitForDisplayed (query (world d (clock s)) sel) 5000]\<rparr>)"
    and "clear_element d sel s =
           Some (Inl (DisplayTimeout (query (world d (clock s)) sel) 5000),
                 s\<lparr>clock := Suc (clock s) + ticks d 5000,
                   trace := trace s @ [Find sel, WaitForDisplayed (query (world d (clock s)) sel) 5000]\<rparr>)"
    and "enter_into_element d tx sel s =
           Some (Inl (DisplayTimeout (query (world d (clock s)) sel) 5000),
                 s\<lparr>clock := Suc (clock s) + ticks d 5000,
                   trace := trace s @ [Find sel, WaitForDisplayed (query (world d (clock s)) sel) 5000]\<rparr>)"
  using assms by (simp_all add: action_defs run_defs)

lemma scoped_actions_wait_for_display:
  assumes "closest (world d (Suc (clock s))) (query (world d (clock s)) sel) psel = Some (Some par)"
    and "first_true (\<lambda>t. isDisplayed (world d t) (query_in (world d (Suc (Suc (clock s)))) par sel))
             (Suc (Suc (Suc (clock s)))) (ticks d 5000) = None"
  shows "map_option fst (click_element_in_closest_parent d sel psel s) =
           Some (Inl (DisplayTimeout (query_in (world d (Suc (Suc (clock s)))) par sel) 5000))"
    and "map_option fst (clear_element_in_closest_parent d sel psel s) =
           Some (Inl (DisplayTimeout (query_in (world d (Suc (Suc (clock s)))) par sel) 5000))"
    and "map_option fst (enter_into_element_in_closest_parent d tx sel psel s) =
           Some (Inl (DisplayTimeout (query_in (world d (Suc (Suc (clock s)))) par sel) 5000))"
  using assms by (simp_all add: scoped_defs run_defs)

lemma with_child_actions_wait_for_display:
  assumes "first_true (\<lambda>t. isDisplayed (world d t) (query (world d (clock s)) csel))
             (Suc (clock s)) (ticks d 10000) = Some k"
    and "closest (world d (Suc k)) (query (world d (clock s)) csel) psel = Some (Some par)"
    and "query_all (world d (Suc (Suc k))) par sel = target # others"
    and "first_true (\<lambda>t. isDisplayed (world d t) target) (Suc (Suc (Suc k))) (ticks d 5000) = None"
  shows "map_option fst (click_element_in_closest_parent_with_child d sel psel csel s) =
           Some (Inl (DisplayTimeout target 5000))"
    and "map_option fst (clear_element_in_closest_parent_with_child d sel psel csel s) =
           Some (Inl (DisplayTimeout target 5000))"
    and "map_option fst (enter_into_element_in_closest_parent_with_child d tx sel psel csel s) =
           Some (Inr ())"
  using assms by (simp_all add: scoped_defs run_defs)

lemma click_waits_for_clickable:
  assumes "first_true (\<lambda>t. isDisplayed (world d t) (query (world d (clock s)) sel))
             (Suc (clock s)) (ticks d 5000) = Some k"
    and "first_true (\<lambda>t. isClickable (world d t) (query (world d (clock s)) sel))
             (Suc k) (ticks d 5000) = None"
  shows "click_element d sel s =
           Some (Inl (ClickableTimeout (query (world d (clock s)) sel) 5000),
                 s\<lparr>clock := Suc k + ticks d 5000,
                   trace := trace s @ [Find sel, WaitForDisplayed (query (world d (clock s)) sel) 5000,
                                       WaitForClickable (query (world d (clock s)) sel) 5000]\<rparr>)"
  using assms by (simp add: action_defs run_defs)

section \<open>Keys\<close>

text \<open>
  C7 fails in the code. \<open>constructor\<close> is not a key of the table, yet the lookup
  finds what the object literal inherits, so the guard passes and the driver's
  \<^verbatim>\<open>keys\<close> is called with a value that is not a string. \<open>PageDown\<close> is refused by the
  handler itself before any command, and \<open>Escape\<close> is sent as its code.
\<close>

theorem press_key_inherited_name:
  "press_key ''constructor'' start =
     Some (Inl KeysArgumentError,
           \<lparr>clock = 1, trace = [Keys (NotAString ''constructor'')], paths = {}\<rparr>)
   \<and> press_key ''PageDown'' start = Some (Inl (Error (unsupported_key ''PageDown'')), start)
   \<and> press_key ''Escape'' start =
     Some (Inr (), \<lparr>clock = 1, trace = [Keys (KeyCode 0xE00C)], paths = {}\<rparr>)"
  by (simp add: press_key_def get_property_def keyMap_def object_prototype_def run_defs start_def)

lemma press_key_supported:
  "press_key ''Enter'' s = Some (Inr (), issue (Keys (KeyCode 0xE007)) s)"
  "press_key ''Esc'' s = Some (Inr (), issue (Keys (KeyCode 0xE00C)) s)"
  "press_key ''Escape'' s = Some (Inr (), issue (Keys (KeyCode 0xE00C)) s)"
  "press_key ''Tab'' s = Some (Inr (), issue (Keys (KeyCode 0xE004)) s)"
  "press_key ''ArrowDown'' s = Some (Inr (), issue (Keys (KeyCode 0xE015)) s)"
  "press_key ''ArrowUp'' s = Some (Inr (), issue (Keys (KeyCode 0xE013)) s)"
  by (simp_all add: press_key_def get_property_def keyMap_def keys_def command_def)

lemma press_key_unknown:
  "keyName \<notin> set (map fst keyMap) \<Longrightarrow> keyName \<notin> set object_prototype \<Longrightarrow>
   press_key keyName s = Some (Inl (Error (unsupported_key keyName)), s)"
  by (simp add: press_key_def get_property_def throw_def map_of_eq_None_iff [THEN iffD2])

section \<open>Screenshot path\<close>

lemma split_on_not_Nil: "split_on c s \<noteq> []"
  by (induction s) (auto split: list.splits)

lemma hd_split_on: "hd (split_on c s) = takeWhile (\<lambda>x. x \<noteq> c) s"
  by (induction s) (auto split: list.splits simp: split_on_not_Nil)

lemma takeWhile_before_dot:
  "takeWhile (\<lambda>c. c \<noteq> d) (u @ d # t) = takeWhile (\<lambda>c. c \<noteq> d) u"
  by (induction u) auto

lemma takeWhile_strip_extension:
  "takeWhile (\<lambda>c. c \<noteq> CHR ''.'') (strip_extension name) = takeWhile (\<lambda>c. c \<noteq> CHR ''.'') name"
proof (cases "dropWhile (\<lambda>c. c \<noteq> CHR ''.'') (rev name)")
  case Nil
  have "strip_extension name = name"
    unfolding strip_extension_def Nil by simp
  then show ?thesis by simp
next
  case (Cons x r)
  have x: "x = CHR ''.''"
    using Cons hd_dropWhile [of "\<lambda>c. c \<noteq> CHR ''.''" "rev name"] by auto
  have "rev name = takeWhile (\<lambda>c. c \<noteq> CHR ''.'') (rev name) @ x # r"
    using takeWhile_dropWhile_id [of "\<lambda>c. c \<noteq> CHR ''.''" "rev name"] unfolding Cons by simp
  then have "rev (rev name) = rev (takeWhile (\<lambda>c. c \<noteq> CHR ''.'') (rev name) @ x # r)"
    by simp
  then have name: "name = rev r @ CHR ''.'' # rev (takeWhile (\<lambda>c. c \<noteq> CHR ''.'') (rev name))"
    using x by simp
  show ?thesis
  proof (cases "r = []")
    case True
    have "strip_extension name = name"
      unfolding strip_extension_def Cons using True by simp
    then show ?thesis by simp
  next
    case False
    have s: "strip_extension name = rev r"
      unfolding strip_extension_def Cons using False by simp
    show ?thesis
      by (subst (2) name) (simp only: s takeWhile_before_dot)
  qed
qed

text \<open>
  The file of the screenshot, for every host: the directory \<open>screenshots\<close>, the version
  (\<open>default\<close> when the variable is unset or empty), and the base name of the feature
  file up to its first dot, with \<open>.png\<close>. Where the base name without its extension holds
  no dot, that is the base name without its extension.
\<close>

lemma screenshot_file_eq:
  "screenshot_file h =
     ''screenshots/'' @ version_of h @ ''/''
       @ takeWhile (\<lambda>c. c \<noteq> CHR ''.'') (basename h (featureLocation h)) @ ''.png''"
  by (simp add: screenshot_file_def hd_split_on)

lemma version_of_cases:
  "VERSION h = None \<Longrightarrow> version_of h = ''default''"
  "VERSION h = Some [] \<Longrightarrow> version_of h = ''default''"
  "VERSION h = Some v \<Longrightarrow> v \<noteq> [] \<Longrightarrow> version_of h = v"
  by (simp_all add: version_of_def)

lemma first_dot_is_extension:
  assumes "CHR ''.'' \<notin> set (strip_extension name)"
  shows "takeWhile (\<lambda>c. c \<noteq> CHR ''.'') name = strip_extension name"
proof -
  have "takeWhile (\<lambda>c. c \<noteq> CHR ''.'') (strip_extension name) = strip_extension name"
    using assms by (intro takeWhile_eq_all_conv [THEN iffD2]) auto
  then show ?thesis by (simp add: takeWhile_strip_extension)
qed

lemma screenshot_file_single_dot:
  "CHR ''.'' \<notin> set (strip_extension (basename h (featureLocation h))) \<Longrightarrow>
   screenshot_file h =
     ''screenshots/'' @ version_of h @ ''/'' @ strip_extension (basename h (featureLocation h)) @ ''.png''"
  by (simp add: screenshot_file_eq first_dot_is_extension)

text \<open>
  When the directory of the file exists the handler makes none; and run twice from any
  state, the handler saves to the same file both times, the second time without making a
  directory.
\<close>

lemma take_screenshot_existing_directory:
  "dirname h (screenshot_file h) \<in> paths s \<Longrightarrow>
   take_screenshot h s =
     Some (Inr (), s\<lparr>clock := Suc (clock s),
             trace := trace s @ [SaveScreenshot (screenshot_file h),
                                 ConsoleLog (''Screenshot guardado: '' @ screenshot_file h)],
             paths := insert (screenshot_file h) (paths s)\<rparr>)"
  by (simp add: take_screenshot_def existsSync_def saveScreenshot_def run_defs Let_def)

lemma take_screenshot_twice:
  "\<exists>s1 s2. take_screenshot h s = Some (Inr (), s1) \<and> take_screenshot h s1 = Some (Inr (), s2)
        \<and> SaveScreenshot (screenshot_file h) \<in> set (trace s1)
        \<and> trace s2 = trace s1 @ [SaveScreenshot (screenshot_file h),
                                  ConsoleLog (''Screenshot guardado: '' @ screenshot_file h)]
        \<and> paths s2 = paths s1"
proof -
  obtain s1 where s1: "take_screenshot h s = Some (Inr (), s1)"
    and here: "dirname h (screenshot_file h) \<in> paths s1"
    and saved: "SaveScreenshot (screenshot_file h) \<in> set (trace s1)"
    and infile: "screenshot_file h \<in> paths s1"
    by (cases "dirname h (screenshot_file h) \<in> paths s")
      (simp_all add: take_screenshot_def existsSync_def saveScreenshot_def
        mkdirSync_recursive_def run_defs Let_def)
  from take_screenshot_existing_directory [OF here] infile
  have "\<exists>s2. take_screenshot h s1 = Some (Inr (), s2)
        \<and> trace s2 = trace s1 @ [SaveScreenshot (screenshot_file h),
                                  ConsoleLog (''Screenshot guardado: '' @ screenshot_file h)]
        \<and> paths s2 = paths s1"
    by (simp add: insert_absorb)
  with s1 saved show ?thesis by blast
qed



lemma posix_path_examples:
  "posix_basename ''features/login.feature'' = ''login.feature''"
  "posix_basename ''features/login/'' = ''login''"
  "posix_basename ''/'' = []"
  "posix_dirname ''screenshots/v2/login.png'' = ''screenshots/v2''"
  "posix_dirname ''login.png'' = ''.''"
  "posix_dirname ''/login.png'' = ''/''"
  by (simp_all add: posix_basename_def posix_dirname_def)


section \<open>Polling steps\<close>

lemmas see_defs =
  should_be_on_page_def should_see_in_element_def should_see_in_attribute_def
  should_see_in_element_in_closest_parent_def should_see_in_element_in_closest_parent_with_child_def
  final_attribute_check_def

text \<open>
  C3, as the code has it. In each of the five polling handlers, when no look of the
  10000 ms budget finds the condition, the handler throws the timeout error with its
  message. The message of the URL step names the expected URL and the duration
  (\<open>10 segundos\<close>); the message of the three text steps names the expected text and the
  element selector; the message of the attribute step names the expected value, the
  attribute and the selector. The scoped text steps are taken from the point where their
  ancestor and target have been found.
\<close>

theorem poll_timeout_message:
  "(first_true (\<lambda>t. getUrl (world d t) = e) (clock s) (ticks d 10000) = None \<longrightarrow>
      map_option fst (should_be_on_page d e s) = Some (Inl (TimeoutError (url_timeout e))))
   \<and> (first_true (\<lambda>t. includes_str (getText (world d t) (query (world d (clock s)) sel)) e)
         (Suc (clock s)) (ticks d 10000) = None \<longrightarrow>
      map_option fst (should_see_in_element d e sel s) = Some (Inl (TimeoutError (text_timeout e sel))))
   \<and> (closest (world d (Suc (clock s))) (query (world d (clock s)) sel) psel = Some (Some par)
       \<and> first_true (\<lambda>t. includes_str (getText (world d t) (query_in (world d (Suc (Suc (clock s)))) par sel)) e)
         (Suc (Suc (Suc (clock s)))) (ticks d 10000) = None \<longrightarrow>
      map_option fst (should_see_in_element_in_closest_parent d e sel psel s) =
        Some (Inl (TimeoutError (text_timeout e sel))))
   \<and> (first_true (\<lambda>t. isDisplayed (world d t) (query (world d (clock s)) csel))
         (Suc (clock s)) (ticks d 10000) = Some k
       \<and> closest (world d (Suc k)) (query (world d (clock s)) csel) psel = Some (Some par)
       \<and> query_all (world d (Suc (Suc k))) par sel = target # others
       \<and> first_true (\<lambda>t. includes_str (getText (world d t) target) e)
         (Suc (Suc (Suc k))) (ticks d 10000) = None \<longrightarrow>
      map_option fst (should_see_in_element_in_closest_parent_with_child d e sel psel csel s) =
        Some (Inl (TimeoutError (text_timeout e sel))))
   \<and> (first_true (\<lambda>t. attribute_seen (getAttribute (world d t) (query (world d (clock s)) sel) a) e)
         (Suc (clock s)) (ticks d 10000) = None \<longrightarrow>
      map_option fst (should_see_in_attribute d e a sel s) =
        Some (Inl (TimeoutError (attribute_timeout e a sel))))
   \<and> includes_str (url_timeout e) e \<and> includes_str (url_timeout e) ''10 segundos''
   \<and> includes_str (text_timeout e sel) e \<and> includes_str (text_timeout e sel) sel
   \<and> includes_str (attribute_timeout e a sel) e \<and> includes_str (attribute_timeout e a sel) a
   \<and> includes_str (attribute_timeout e a sel) sel"
proof -
  have u: "first_true (\<lambda>t. getUrl (world d t) = e) (clock s) (ticks d 10000) = None \<longrightarrow>
      map_option fst (should_be_on_page d e s) = Some (Inl (TimeoutError (url_timeout e)))"
    by (simp add: see_defs run_defs)
  have t1: "first_true (\<lambda>t. includes_str (getText (world d t) (query (world d (clock s)) sel)) e)
         (Suc (clock s)) (ticks d 10000) = None \<longrightarrow>
      map_option fst (should_see_in_element d e sel s) = Some (Inl (TimeoutError (text_timeout e sel)))"
    by (simp add: see_defs run_defs)
  have t2: "closest (world d (Suc (clock s))) (query (world d (clock s)) sel) psel = Some (Some par)
       \<and> first_true (\<lambda>t. includes_str (getText (world d t) (query_in (world d (Suc (Suc (clock s)))) par sel)) e)
         (Suc (Suc (Suc (clock s)))) (ticks d 10000) = None \<longrightarrow>
      map_option fst (should_see_in_element_in_closest_parent d e sel psel s) =
        Some (Inl (TimeoutError (text_timeout e sel)))"
    by (simp add: see_defs run_defs)
  have t3: "first_true (\<lambda>t. isDisplayed (world d t) (query (world d (clock s)) csel))
         (Suc (clock s)) (ticks d 10000) = Some k
       \<and> closest (world d (Suc k)) (query (world d (clock s)) csel) psel = Some (Some par)
       \<and> query_all (world d (Suc (Suc k))) par sel = target # others
       \<and> first_true (\<lambda>t. includes_str (getText (world d t) target) e)
         (Suc (Suc (Suc k))) (ticks d 10000) = None \<longrightarrow>
      map_option fst (should_see_in_element_in_closest_parent_with_child d e sel psel csel s) =
        Some (Inl (TimeoutError (text_timeout e sel)))"
    by (simp add: see_defs run_defs)
  have at: "first_true (\<lambda>t. attribute_seen (getAttribute (world d t) (query (world d (clock s)) sel) a) e)
         (Suc (clock s)) (ticks d 10000) = None \<longrightarrow>
      map_option fst (should_see_in_attribute d e a sel s) =
        Some (Inl (TimeoutError (attribute_timeout e a sel)))"
    by (simp add: see_defs run_defs)
  have m1: "includes_str (url_timeout e) e"
    using includes_quoted [of "''La URL no cambi'' @ [o_acute] @ '' a ''" e
        "'' despu'' @ [e_acute] @ ''s de 10 segundos''"]
    by (simp add: url_timeout_def)
  have m2: "includes_str (url_timeout e) ''10 segundos''"
    using includes_str_append [of "''La URL no cambi'' @ [o_acute] @ '' a '' @ quoted e
        @ '' despu'' @ [e_acute] @ ''s de ''" "''10 segundos''" "[]"]
    by (simp add: url_timeout_def)
  have m3: "includes_str (text_timeout e sel) e"
    using includes_quoted [of "''El texto ''" e
        "'' no apareci'' @ [o_acute] @ '' dentro del elemento '' @ quoted sel"]
    by (simp add: text_timeout_def)
  have m4: "includes_str (text_timeout e sel) sel"
    using includes_quoted_end [of "''El texto '' @ quoted e @ '' no apareci'' @ [o_acute]
        @ '' dentro del elemento ''" sel]
    by (simp add: text_timeout_def)
  have m5: "includes_str (attribute_timeout e a sel) e"
    using includes_quoted [of "''El valor ''" e
        "'' no apareci'' @ [o_acute] @ '' en el atributo '' @ quoted a @ '' del elemento '' @ quoted sel"]
    by (simp add: attribute_timeout_def)
  have m6: "includes_str (attribute_timeout e a sel) a"
    using includes_quoted [of "''El valor '' @ quoted e @ '' no apareci'' @ [o_acute] @ '' en el atributo ''" a
        "'' del elemento '' @ quoted sel"]
    by (simp add: attribute_timeout_def)
  have m7: "includes_str (attribute_timeout e a sel) sel"
    using includes_quoted_end [of "''El valor '' @ quoted e @ '' no apareci'' @ [o_acute] @ '' en el atributo ''
        @ quoted a @ '' del elemento ''" sel]
    by (simp add: attribute_timeout_def)
  from u t1 t2 t3 at m1 m2 m3 m4 m5 m6 m7 show ?thesis by blast
qed

lemma card_reads:
  "query card_page ''#x'' = 4" "query card_page ''input'' = 5" "query card_page ''#status'' = 4"
  "query_all card_page 3 ''input'' = [5]" "query_in card_page 3 ''input'' = 5"
  "query_in card_page 3 ''#x'' = 4"
  "isDisplayed card_page 4" "\<not> isDisplayed card_page 5"
  "getText card_page n = []" "getUrl card_page = ''http://localhost/cards''"
  "getAttribute card_page 4 ''aria-label'' = None"
  by (simp_all add: card_page_def)

text \<open>
  C3, witness: in the card page the URL is never \<open>http://localhost/done\<close>, no text holds
  \<open>Saved\<close> and the span has no \<open>aria-label\<close>.
\<close>

theorem poll_timeout_message_witness:
  "map_option fst (should_be_on_page card_session ''http://localhost/done'' start) =
     Some (Inl (TimeoutError (url_timeout ''http://localhost/done'')))
   \<and> map_option fst (should_see_in_element card_session ''Saved'' ''#x'' start) =
     Some (Inl (TimeoutError (text_timeout ''Saved'' ''#x'')))
   \<and> map_option fst (should_see_in_element_in_closest_parent card_session ''Saved'' ''#x'' ''.card'' start) =
     Some (Inl (TimeoutError (text_timeout ''Saved'' ''#x'')))
   \<and> map_option fst (should_see_in_element_in_closest_parent_with_child card_session ''Saved'' ''#x'' ''.card'' ''#x'' start) =
     Some (Inl (TimeoutError (text_timeout ''Saved'' ''#x'')))
   \<and> map_option fst (should_see_in_attribute card_session ''Saved'' ''aria-label'' ''#x'' start) =
     Some (Inl (TimeoutError (attribute_timeout ''Saved'' ''aria-label'' ''#x'')))
   \<and> includes_str (url_timeout ''http://localhost/done'') ''http://localhost/done''
   \<and> includes_str (url_timeout ''http://localhost/done'') ''10 segundos''
   \<and> includes_str (text_timeout ''Saved'' ''#x'') ''Saved''
   \<and> includes_str (text_timeout ''Saved'' ''#x'') ''#x''
   \<and> includes_str (attribute_timeout ''Saved'' ''aria-label'' ''#x'') ''Saved''
   \<and> includes_str (attribute_timeout ''Saved'' ''aria-label'' ''#x'') ''aria-label''
   \<and> includes_str (attribute_timeout ''Saved'' ''aria-label'' ''#x'') ''#x''"
proof -
  have u: "first_true (\<lambda>t. getUrl (world card_session t) = ''http://localhost/done'') (clock start)
       (ticks card_session 10000) = None"
    by (simp add: card_session_simps card_reads first_true_numeral)
  have t1: "first_true (\<lambda>t. includes_str (getText (world card_session t)
        (query (world card_session (clock start)) ''#x'')) ''Saved'')
       (Suc (clock start)) (ticks card_session 10000) = None"
    by (simp add: card_session_simps card_reads first_true_numeral)
  have c2: "closest (world card_session (Suc (clock start))) (query (world card_session (clock start)) ''#x'') ''.card''
       = Some (Some 3)"
    by (simp add: card_session_simps card_reads card_closest)
  have t2: "first_true (\<lambda>t. includes_str (getText (world card_session t)
        (query_in (world card_session (Suc (Suc (clock start)))) 3 ''#x'')) ''Saved'')
       (Suc (Suc (Suc (clock start)))) (ticks card_session 10000) = None"
    by (simp add: card_session_simps card_reads first_true_numeral)
  have w3: "first_true (\<lambda>t. isDisplayed (world card_session t) (query (world card_session (clock start)) ''#x''))
         (Suc (clock start)) (ticks card_session 10000) = Some 1"
    by (simp add: card_session_simps card_reads first_true_numeral start_def)
  have c3: "closest (world card_session (Suc 1)) (query (world card_session (clock start)) ''#x'') ''.card''
       = Some (Some 3)"
    by (simp add: card_session_simps card_reads card_closest)
  have q3: "query_all (world card_session (Suc (Suc 1))) 3 ''#x'' = 4 # []"
    by (simp add: card_session_simps card_page_def)
  have t3: "first_true (\<lambda>t. includes_str (getText (world card_session t) 4) ''Saved'')
         (Suc (Suc (Suc 1))) (ticks card_session 10000) = None"
    by (simp add: card_session_simps card_reads first_true_numeral)
  have at: "first_true (\<lambda>t. attribute_seen (getAttribute (world card_session t)
         (query (world card_session (clock start)) ''#x'') ''aria-label'') ''Saved'')
         (Suc (clock start)) (ticks card_session 10000) = None"
    by (simp add: card_session_simps card_reads first_true_numeral attribute_seen_def)
  show ?thesis
    using poll_timeout_message [where d = card_session and s = start and e = "''http://localhost/done''"
        and sel = "''#x''" and psel = "''.card''" and par = 3 and csel = "''#x''" and k = 1
        and target = 4 and others = "[]" and a = "''aria-label''"]
      poll_timeout_message [where d = card_session and s = start and e = "''Saved''"
        and sel = "''#x''" and psel = "''.card''" and par = 3 and csel = "''#x''" and k = 1
        and target = 4 and others = "[]" and a = "''aria-label''"]
      u t1 c2 t2 w3 c3 q3 t3 at
    by blast
qed

text \<open>
  C3, counterexample to the claim as stated: the text of \<open>#status\<close> never holds
  \<open>Saved\<close>; the step fails with the timeout error, and its message holds no digit at
  all, so it names no duration.
\<close>

theorem text_timeout_names_no_duration_counterexample:
  "should_see_in_element card_session ''Saved'' ''#status'' start =
     Some (Inl (TimeoutError (text_timeout ''Saved'' ''#status'')),
           \<lparr>clock = 5, trace = [Find ''#status'', WaitUntil 10000], paths = {}\<rparr>)
   \<and> digits_of (text_timeout ''Saved'' ''#status'') = []"
  by (simp add: see_defs run_defs start_def card_session_simps card_reads first_true_numeral
      digits_of_def text_timeout_def quoted_def o_acute_def)

text \<open>
  The templates of the text and attribute steps add no digit of their own: the digits
  of their messages are those of the values put in.
\<close>

lemma timeout_templates_add_no_digit:
  "digits_of (text_timeout e sel) = digits_of e @ digits_of sel"
  "digits_of (attribute_timeout e a sel) = digits_of e @ digits_of a @ digits_of sel"
  by (simp_all add: digits_of_def text_timeout_def attribute_timeout_def quoted_def o_acute_def)

section \<open>The check after the poll\<close>

text \<open>
  What a verification step returns once its poll has succeeded at instant \<open>k\<close>: the
  value read at the next instant decides.
\<close>

lemma final_check_decides:
  "first_true (\<lambda>t. getUrl (world d t) = e) (clock s) (ticks d 10000) = Some k \<Longrightarrow>
     map_option fst (should_be_on_page d e s) =
       Some (if getUrl (world d (Suc k)) = e then Inr ()
             else Inl (NotStrictEqual (getUrl (world d (Suc k))) e))"
  "first_true (\<lambda>t. includes_str (getText (world d t) (query (world d (clock s)) sel)) e)
         (Suc (clock s)) (ticks d 10000) = Some k \<Longrightarrow>
     map_option fst (should_see_in_element d e sel s) =
       Some (if includes_str (getText (world d (Suc k)) (query (world d (clock s)) sel)) e then Inr ()
             else Inl (AssertionError (text_not_found e)))"
  "first_true (\<lambda>t. attribute_seen (getAttribute (world d t) (query (world d (clock s)) sel) a) e)
         (Suc (clock s)) (ticks d 10000) = Some k \<Longrightarrow>
     map_option fst (should_see_in_attribute d e a sel s) =
       Some (case getAttribute (world d (Suc k)) (query (world d (clock s)) sel) a of
               None \<Rightarrow> Inl (TypeError ''Cannot read properties of null'')
             | Some v \<Rightarrow> if includes_str v e then Inr ()
                         else Inl (AssertionError (attribute_mismatch a e (Some v))))"
  by (simp_all add: see_defs run_defs split: option.splits)

text \<open>
  C4 fails in the code. In \<open>flip_session\<close> the attribute holds \<open>Saved\<close> when the poll
  looks and is absent when the handler reads it again: the final check does not hold, and
  the step fails with a type error, not with the assertion error. Where the value read
  again is a string that fails the check, the attribute, text and URL steps do throw
  their assertion errors (\<open>regress_session\<close>).
\<close>

theorem attribute_recheck_type_error:
  "should_see_in_attribute flip_session ''Saved'' ''aria-label'' ''#x'' start =
     Some (Inl (TypeError ''Cannot read properties of null''),
           \<lparr>clock = 3,
            trace = [Find ''#x'', WaitUntil 10000, ReadAttribute 4 ''aria-label'',
                     ConsoleLog (''Valor final del atributo '' @ quoted ''aria-label'' @ '': '' @ quoted ''null'')],
            paths = {}\<rparr>)
   \<and> should_see_in_attribute regress_session ''Saved'' ''aria-label'' ''#x'' start =
     Some (Inl (AssertionError (attribute_mismatch ''aria-label'' ''Saved'' (Some ''Gone''))),
           \<lparr>clock = 3,
            trace = [Find ''#x'', WaitUntil 10000, ReadAttribute 4 ''aria-label'',
                     ConsoleLog (''Valor final del atributo '' @ quoted ''aria-label'' @ '': '' @ quoted ''Gone'')],
            paths = {}\<rparr>)
   \<and> should_see_in_element regress_session ''Saved'' ''#x'' start =
     Some (Inl (AssertionError (text_not_found ''Saved'')),
           \<lparr>clock = 3,
            trace = [Find ''#x'', WaitUntil 10000, ReadText 4,
                     ConsoleLog (''Texto final encontrado: '' @ quoted ''Gone'')],
            paths = {}\<rparr>)
   \<and> should_be_on_page regress_session ''Saved'' (start\<lparr>clock := 1\<rparr>) =
     Some (Inl (NotStrictEqual ''Gone'' ''Saved''),
           \<lparr>clock = 3, trace = [WaitUntil 10000, ReadUrl], paths = {}\<rparr>)"
  by (simp add: see_defs run_defs start_def flip_session_def regress_session_def card_reads
      first_true_numeral attribute_seen_def show_value_def)

text \<open>
  C10. The polling condition of the attribute step is false on a null attribute. When
  the poll succeeds at instant \<open>k\<close> and the attribute read at the next instant is null,
  the attribute was not null at \<open>k\<close>, and the step throws the type error of the method
  call on null; the assertion error of the final check is not reached.
\<close>

theorem attribute_recheck_null:
  "\<not> attribute_seen None e
   \<and> (first_true (\<lambda>t. attribute_seen (getAttribute (world d t) (query (world d (clock s)) sel) a) e)
         (Suc (clock s)) (ticks d 10000) = Some k
       \<and> getAttribute (world d (Suc k)) (query (world d (clock s)) sel) a = None \<longrightarrow>
         getAttribute (world d k) (query (world d (clock s)) sel) a \<noteq> None
         \<and> should_see_in_attribute d e a sel s =
             Some (Inl (TypeError ''Cannot read properties of null''),
                   s\<lparr>clock := Suc (Suc k),
                     trace := trace s @ [Find sel, WaitUntil 10000,
                       ReadAttribute (query (world d (clock s)) sel) a,
                       ConsoleLog (''Valor final del atributo '' @ quoted a @ '': '' @ quoted ''null'')]\<rparr>))"
proof -
  have n: "\<not> attribute_seen None e"
    by (simp add: attribute_seen_def)
  have seen: "first_true (\<lambda>t. attribute_seen (getAttribute (world d t) (query (world d (clock s)) sel) a) e)
         (Suc (clock s)) (ticks d 10000) = Some k \<Longrightarrow>
       getAttribute (world d k) (query (world d (clock s)) sel) a \<noteq> None"
    using first_true_holds [of "\<lambda>t. attribute_seen (getAttribute (world d t) (query (world d (clock s)) sel) a) e"
        "Suc (clock s)" "ticks d 10000" k]
    by (auto simp: attribute_seen_def split: option.splits)
  have run: "first_true (\<lambda>t. attribute_seen (getAttribute (world d t) (query (world d (clock s)) sel) a) e)
         (Suc (clock s)) (ticks d 10000) = Some k
       \<and> getAttribute (world d (Suc k)) (query (world d (clock s)) sel) a = None \<longrightarrow>
       should_see_in_attribute d e a sel s =
             Some (Inl (TypeError ''Cannot read properties of null''),
                   s\<lparr>clock := Suc (Suc k),
                     trace := trace s @ [Find sel, WaitUntil 10000,
                       ReadAttribute (query (world d (clock s)) sel) a,
                       ConsoleLog (''Valor final del atributo '' @ quoted a @ '': '' @ quoted ''null'')]\<rparr>)"
    by (simp add: see_defs run_defs show_value_def)
  from n seen run show ?thesis by blast
qed

text \<open>
  C10, witness: in \<open>late_session\<close> the poll succeeds at instant 2 and the attribute is
  absent at instant 3.
\<close>

theorem attribute_recheck_null_witness:
  "getAttribute (world late_session 2) 4 ''data-state'' = Some ''Saved''
   \<and> getAttribute (world late_session 3) 4 ''data-state'' = None
   \<and> should_see_in_attribute late_session ''Saved'' ''data-state'' ''#x'' start =
       Some (Inl (TypeError ''Cannot read properties of null''),
             \<lparr>clock = 4,
              trace = [Find ''#x'', WaitUntil 10000, ReadAttribute 4 ''data-state'',
                       ConsoleLog (''Valor final del atributo '' @ quoted ''data-state'' @ '': '' @ quoted ''null'')],
              paths = {}\<rparr>)"
proof -
  have q: "query (world late_session (clock start)) ''#x'' = 4"
    by (simp add: late_session_def card_reads)
  have p: "first_true (\<lambda>t. attribute_seen (getAttribute (world late_session t)
         (query (world late_session (clock start)) ''#x'') ''data-state'') ''Saved'')
         (Suc (clock start)) (ticks late_session 10000) = Some 2"
    by (simp add: q) (simp add: late_session_def start_def first_true_numeral attribute_seen_def)
  have z: "getAttribute (world late_session (Suc 2)) (query (world late_session (clock start)) ''#x'') ''data-state'' = None"
    by (simp add: q) (simp add: late_session_def)
  have v: "getAttribute (world late_session 2) 4 ''data-state'' = Some ''Saved''"
    "getAttribute (world late_session 3) 4 ''data-state'' = None"
    by (simp_all add: late_session_def)
  show ?thesis
    using attribute_recheck_null [of "''Saved''" late_session start "''#x''" "''data-state''" 2] p z v
    by (simp add: q) (simp add: start_def)
qed

end
